theory Spec2Isabelle
  imports Main
begin

section \<open>Python library functions used by \<^verbatim>\<open>game_sentry.py\<close>\<close>

text \<open>
  The program works with naive \<^verbatim>\<open>datetime\<close> values (no time zone), which Python
  stores as a proleptic Gregorian day number plus a time of day with microsecond
  resolution. A \<^verbatim>\<open>datetime\<close> is modelled as the number of microseconds counted from
  the start of day 0 (day 1 is 0001-01-01), a \<^verbatim>\<open>date\<close> as the day number
  (\<^verbatim>\<open>date.toordinal()\<close>), a \<^verbatim>\<open>time\<close> as the microseconds since midnight, and a
  \<^verbatim>\<open>timedelta\<close> as a number of microseconds. Comparison, subtraction and
  \<^verbatim>\<open>+ timedelta\<close> are then the integer operations. Python's range check on years
  (1..9999, \<^verbatim>\<open>OverflowError\<close> beyond) is not modelled for sums.
  Strings are ASCII text.
\<close>

type_synonym py_datetime = int
type_synonym py_date = int
type_synonym py_time = int
type_synonym py_timedelta = int

definition us_per_second :: int where
  "us_per_second = 1000000"

definition us_per_day :: int where
  "us_per_day = 86400 * 1000000"

definition date_of :: "py_datetime \<Rightarrow> py_date" where
  \<comment> \<open>\<^verbatim>\<open>dt.date()\<close>\<close>
  "date_of dt = dt div us_per_day"

definition time_of :: "py_datetime \<Rightarrow> py_time" where
  \<comment> \<open>\<^verbatim>\<open>dt.time()\<close>\<close>
  "time_of dt = dt mod us_per_day"

definition start_of_day :: "py_datetime \<Rightarrow> py_datetime" where
  \<comment> \<open>\<^verbatim>\<open>dt.replace(hour=0, minute=0, second=0, microsecond=0)\<close>\<close>
  "start_of_day dt = date_of dt * us_per_day"

definition timedelta_minutes :: "int \<Rightarrow> py_timedelta" where
  \<comment> \<open>\<^verbatim>\<open>timedelta(minutes=n)\<close>\<close>
  "timedelta_minutes n = n * 60 * us_per_second"

definition int_total_seconds :: "py_timedelta \<Rightarrow> int" where
  \<comment> \<open>\<^verbatim>\<open>int(td.total_seconds())\<close>: the float quotient, truncated towards zero\<close>
  "int_total_seconds td =
     (if td < 0 then - ((- td) div us_per_second) else td div us_per_second)"

definition mk_time :: "int \<Rightarrow> int \<Rightarrow> int \<Rightarrow> int \<Rightarrow> py_time" where
  \<comment> \<open>\<^verbatim>\<open>time(hour, minute, second, microsecond)\<close>\<close>
  "mk_time h m s us = ((h * 60 + m) * 60 + s) * us_per_second + us"

subsection \<open>The calendar of \<^verbatim>\<open>datetime.py\<close>\<close>

definition is_leap :: "int \<Rightarrow> bool" where
  "is_leap y \<longleftrightarrow> y mod 4 = 0 \<and> (y mod 100 \<noteq> 0 \<or> y mod 400 = 0)"

definition days_before_year :: "int \<Rightarrow> int" where
  "days_before_year year =
     (let y = year - 1 in y * 365 + y div 4 - y div 100 + y div 400)"

definition DAYS_IN_MONTH :: "int list" where
  "DAYS_IN_MONTH = [-1, 31, 28, 31, 30, 31, 30, 31, 31, 30, 31, 30, 31]"

definition DAYS_BEFORE_MONTH :: "int list" where
  "DAYS_BEFORE_MONTH = [-1, 0, 31, 59, 90, 120, 151, 181, 212, 243, 273, 304, 334]"

definition days_in_month :: "int \<Rightarrow> int \<Rightarrow> int" where
  \<comment> \<open>called with \<open>1 \<le> month \<le> 12\<close> only\<close>
  "days_in_month year month =
     (if month = 2 \<and> is_leap year then 29 else DAYS_IN_MONTH ! nat month)"

definition days_before_month :: "int \<Rightarrow> int \<Rightarrow> int" where
  \<comment> \<open>called with \<open>1 \<le> month \<le> 12\<close> only\<close>
  "days_before_month year month =
     DAYS_BEFORE_MONTH ! nat month + (if month > 2 \<and> is_leap year then 1 else 0)"

definition ymd2ord :: "int \<Rightarrow> int \<Rightarrow> int \<Rightarrow> py_date" where
  "ymd2ord year month day =
     days_before_year year + days_before_month year month + day"

definition ord2ymd :: "py_date \<Rightarrow> int \<times> int \<times> int" where
  "ord2ymd n0 =
     (let n = n0 - 1;
          n400 = n div 146097; n = n mod 146097;
          year = n400 * 400 + 1;
          n100 = n div 36524; n = n mod 36524;
          n4 = n div 1461; n = n mod 1461;
          n1 = n div 365; n = n mod 365;
          year = year + n100 * 100 + n4 * 4 + n1
      in if n1 = 4 \<or> n100 = 4 then (year - 1, 12, 31)
         else
           let leapyear = (n1 = 3 \<and> (n4 \<noteq> 24 \<or> n100 = 3));
               month = (n + 50) div 32;
               preceding = DAYS_BEFORE_MONTH ! nat month
                             + (if month > 2 \<and> leapyear then 1 else 0)
           in if preceding > n
              then (let month' = month - 1;
                        preceding' = preceding
                          - (DAYS_IN_MONTH ! nat month'
                               + (if month' = 2 \<and> leapyear then 1 else 0))
                    in (year, month', n - preceding' + 1))
              else (year, month, n - preceding + 1))"

definition at :: "int \<Rightarrow> int \<Rightarrow> int \<Rightarrow> int \<Rightarrow> int \<Rightarrow> int \<Rightarrow> py_datetime" where
  \<comment> \<open>the value of \<^verbatim>\<open>datetime(y, m, d, H, M, S)\<close> for fields in range\<close>
  "at y m d H M S = ymd2ord y m d * us_per_day + mk_time H M S 0"

definition mk_datetime :: "int \<Rightarrow> int \<Rightarrow> int \<Rightarrow> int \<Rightarrow> int \<Rightarrow> int \<Rightarrow> py_datetime option" where
  \<comment> \<open>\<^verbatim>\<open>datetime(y, m, d, H, M, S)\<close>; \<open>None\<close> is the \<^verbatim>\<open>ValueError\<close> of a field out of range\<close>
  "mk_datetime y m d H M S =
     (if 1 \<le> y \<and> y \<le> 9999 \<and> 1 \<le> m \<and> m \<le> 12 \<and> 1 \<le> d \<and> d \<le> days_in_month y m
         \<and> 0 \<le> H \<and> H \<le> 23 \<and> 0 \<le> M \<and> M \<le> 59 \<and> 0 \<le> S \<and> S \<le> 59
      then Some (at y m d H M S)
      else None)"

subsection \<open>\<^verbatim>\<open>int(str)\<close>, \<^verbatim>\<open>str.split\<close> and number formatting\<close>

definition is_digit :: "char \<Rightarrow> bool" where
  "is_digit c \<longleftrightarrow> c \<in> set ''0123456789''"

definition digit_val :: "char \<Rightarrow> nat" where
  "digit_val c = of_char c - 48"

definition is_space :: "char \<Rightarrow> bool" where
  \<comment> \<open>ASCII characters with \<^verbatim>\<open>str.isspace()\<close>: TAB, LF, VT, FF, CR, FS, GS, RS, US, SPACE\<close>
  "is_space c \<longleftrightarrow> (of_char c :: nat) \<in> {9, 10, 11, 12, 13, 28, 29, 30, 31, 32}"

definition strip :: "string \<Rightarrow> string" where
  "strip s = rev (dropWhile is_space (rev (dropWhile is_space s)))"

fun int_body :: "string \<Rightarrow> nat \<Rightarrow> nat option" where
  \<comment> \<open>the rest of a decimal literal after a digit; one underscore may separate two digits\<close>
  "int_body [] acc = Some acc"
| "int_body (c # cs) acc =
     (if is_digit c then int_body cs (10 * acc + digit_val c)
      else if c = CHR ''_'' then
        (case cs of
           [] \<Rightarrow> None
         | d # ds \<Rightarrow> if is_digit d then int_body ds (10 * acc + digit_val d) else None)
      else None)"

definition int_unsigned :: "string \<Rightarrow> nat option" where
  "int_unsigned s =
     (case s of
        [] \<Rightarrow> None
      | c # cs \<Rightarrow> if is_digit c then int_body cs (digit_val c) else None)"

definition py_int :: "string \<Rightarrow> int option" where
  \<comment> \<open>\<^verbatim>\<open>int(s)\<close> for a string; \<open>None\<close> is \<^verbatim>\<open>ValueError\<close>\<close>
  "py_int s =
     (case strip s of
        [] \<Rightarrow> None
      | c # cs \<Rightarrow>
          if c = CHR ''-'' then map_option (\<lambda>n. - int n) (int_unsigned cs)
          else if c = CHR ''+'' then map_option int (int_unsigned cs)
          else map_option int (int_unsigned (c # cs)))"

fun split_acc :: "char \<Rightarrow> string \<Rightarrow> string \<Rightarrow> string list" where
  "split_acc sep [] cur = [rev cur]"
| "split_acc sep (c # cs) cur =
     (if c = sep then rev cur # split_acc sep cs [] else split_acc sep cs (c # cur))"

definition str_split :: "char \<Rightarrow> string \<Rightarrow> string list" where
  \<comment> \<open>\<^verbatim>\<open>s.split(sep)\<close> for a one-character separator\<close>
  "str_split sep s = split_acc sep s []"

definition digit_char :: "nat \<Rightarrow> char" where
  "digit_char d = char_of (48 + d)"

fun str_nat :: "nat \<Rightarrow> string" where
  "str_nat n = (if n < 10 then [digit_char n] else str_nat (n div 10) @ [digit_char (n mod 10)])"

declare str_nat.simps [simp del]

definition str_int :: "int \<Rightarrow> string" where
  \<comment> \<open>\<^verbatim>\<open>str(n)\<close>, \<^verbatim>\<open>f"{n}"\<close>\<close>
  "str_int n = (if n < 0 then CHR ''-'' # str_nat (nat (- n)) else str_nat (nat n))"

definition zfill :: "nat \<Rightarrow> int \<Rightarrow> string" where
  \<comment> \<open>\<^verbatim>\<open>f"{n:0w}"\<close>: zeros between the sign and the digits up to width \<open>w\<close>\<close>
  "zfill w n =
     (if n < 0
      then (let ds = str_nat (nat (- n)) in CHR ''-'' # replicate (w - 1 - length ds) CHR ''0'' @ ds)
      else (let ds = str_nat (nat n) in replicate (w - length ds) CHR ''0'' @ ds))"

subsection \<open>\<^verbatim>\<open>datetime.strptime\<close>\<close>

text \<open>
  \<^verbatim>\<open>_strptime\<close> turns the format into a regular expression, takes the first match
  that \<^verbatim>\<open>re.match\<close> finds (alternatives in the order written, backtracking), and
  raises \<^verbatim>\<open>ValueError\<close> when there is none or when text remains after it. A matcher
  returns the list of its matches, each with the text left over, in the order the
  regular expression engine tries them.
\<close>

type_synonym matcher = "string \<Rightarrow> (string \<times> string) list"

definition one_of :: "string \<Rightarrow> matcher" where
  \<comment> \<open>a character class\<close>
  "one_of cls s =
     (case s of [] \<Rightarrow> [] | c # cs \<Rightarrow> if c \<in> set cls then [([c], cs)] else [])"

definition then_m :: "matcher \<Rightarrow> matcher \<Rightarrow> matcher" where
  "then_m p q s =
     concat (map (\<lambda>(a, r). map (\<lambda>(b, r'). (a @ b, r')) (q r)) (p s))"

definition or_m :: "matcher \<Rightarrow> matcher \<Rightarrow> matcher" where
  "or_m p q s = p s @ q s"

definition digit :: matcher where
  "digit = one_of ''0123456789''"

definition re_Y :: matcher where
  \<comment> \<open>\<^verbatim>\<open>\d\d\d\d\<close>\<close>
  "re_Y = then_m digit (then_m digit (then_m digit digit))"

definition re_m :: matcher where
  \<comment> \<open>\<^verbatim>\<open>1[0-2]|0[1-9]|[1-9]\<close>\<close>
  "re_m = or_m (then_m (one_of ''1'') (one_of ''012''))
            (or_m (then_m (one_of ''0'') (one_of ''123456789'')) (one_of ''123456789''))"

definition re_d :: matcher where
  \<comment> \<open>\<^verbatim>\<open>3[0-1]|[1-2]\d|0[1-9]|[1-9]| [1-9]\<close>\<close>
  "re_d = or_m (then_m (one_of ''3'') (one_of ''01''))
            (or_m (then_m (one_of ''12'') digit)
               (or_m (then_m (one_of ''0'') (one_of ''123456789''))
                  (or_m (one_of ''123456789'')
                     (then_m (one_of '' '') (one_of ''123456789'')))))"

definition re_H :: matcher where
  \<comment> \<open>\<^verbatim>\<open>2[0-3]|[0-1]\d|\d\<close>\<close>
  "re_H = or_m (then_m (one_of ''2'') (one_of ''0123''))
            (or_m (then_m (one_of ''01'') digit) digit)"

definition re_M :: matcher where
  \<comment> \<open>\<^verbatim>\<open>[0-5]\d|\d\<close>\<close>
  "re_M = or_m (then_m (one_of ''012345'') digit) digit"

definition re_S :: matcher where
  \<comment> \<open>\<^verbatim>\<open>6[0-1]|[0-5]\d|\d\<close>\<close>
  "re_S = or_m (then_m (one_of ''6'') (one_of ''01''))
            (or_m (then_m (one_of ''012345'') digit) digit)"

fun spaces :: matcher where
  \<comment> \<open>\<^verbatim>\<open>\s+\<close>, the longest run first\<close>
  "spaces [] = []"
| "spaces (c # cs) =
     (if is_space c then map (\<lambda>(a, r). (c # a, r)) (spaces cs) @ [([c], cs)] else [])"

fun groups :: "matcher list \<Rightarrow> string \<Rightarrow> (string list \<times> string) list" where
  \<comment> \<open>the matchers in sequence, keeping the text each one matched\<close>
  "groups [] s = [([], s)]"
| "groups (p # ps) s =
     concat (map (\<lambda>(a, r). map (\<lambda>(gs, r'). (a # gs, r')) (groups ps r)) (p s))"

definition found :: "matcher list \<Rightarrow> string \<Rightarrow> string list option" where
  \<comment> \<open>the first match, when it covers the whole string\<close>
  "found ps s =
     (case groups ps s of
        [] \<Rightarrow> None
      | (gs, r) # _ \<Rightarrow> if r = [] then Some gs else None)"

definition group_int :: "string \<Rightarrow> int" where
  \<comment> \<open>\<^verbatim>\<open>int(found_dict[...])\<close> on the text of a group of digits\<close>
  "group_int g = (case py_int g of None \<Rightarrow> 0 | Some n \<Rightarrow> n)"

definition strptime_HM :: "string \<Rightarrow> py_time option" where
  \<comment> \<open>\<^verbatim>\<open>datetime.strptime(s, '%H:%M').time()\<close>; \<open>None\<close> is \<^verbatim>\<open>ValueError\<close>\<close>
  "strptime_HM s =
     (case found [re_H, one_of '':'', re_M] s of
        Some [H, _, M] \<Rightarrow> Some (mk_time (group_int H) (group_int M) 0 0)
      | _ \<Rightarrow> None)"

definition strptime_YmdHMS :: "string \<Rightarrow> py_datetime option" where
  \<comment> \<open>\<^verbatim>\<open>datetime.strptime(s, '%Y-%m-%d %H:%M:%S')\<close>\<close>
  "strptime_YmdHMS s =
     (case found [re_Y, one_of ''-'', re_m, one_of ''-'', re_d, spaces,
                  re_H, one_of '':'', re_M, one_of '':'', re_S] s of
        Some [Y, _, m, _, d, _, H, _, M, _, S] \<Rightarrow>
          mk_datetime (group_int Y) (group_int m) (group_int d)
            (group_int H) (group_int M) (group_int S)
      | _ \<Rightarrow> None)"

definition strptime_YmdHM :: "string \<Rightarrow> py_datetime option" where
  \<comment> \<open>\<^verbatim>\<open>datetime.strptime(s, '%Y-%m-%d %H:%M')\<close>\<close>
  "strptime_YmdHM s =
     (case found [re_Y, one_of ''-'', re_m, one_of ''-'', re_d, spaces,
                  re_H, one_of '':'', re_M] s of
        Some [Y, _, m, _, d, _, H, _, M] \<Rightarrow>
          mk_datetime (group_int Y) (group_int m) (group_int d)
            (group_int H) (group_int M) 0
      | _ \<Rightarrow> None)"

definition strftime_YmdHMS :: "py_datetime \<Rightarrow> string" where
  \<comment> \<open>\<^verbatim>\<open>dt.strftime('%Y-%m-%d %H:%M:%S')\<close>, the year written with four digits\<close>
  "strftime_YmdHMS dt =
     (let (y, m, d) = ord2ymd (date_of dt);
          secs = time_of dt div us_per_second
      in zfill 4 y @ ''-'' @ zfill 2 m @ ''-'' @ zfill 2 d @ '' ''
           @ zfill 2 (secs div 3600) @ '':'' @ zfill 2 (secs mod 3600 div 60)
           @ '':'' @ zfill 2 (secs mod 60))"

section \<open>The data of the application\<close>

text \<open>
  A stored interval, as the program writes it: three strings.
\<close>

record session =
  start :: string
  stop :: string
  duration :: string

text \<open>
  A user document of the \<^verbatim>\<open>users\<close> collection: the keys that the time-budget code
  reads or writes, \<open>None\<close> for a key that the document does not have. The document id
  is the key of the collection.
\<close>

record user_doc =
  username :: "string option"
  max_session_minutes :: "int option"
  max_daily_minutes :: "int option"
  rest_minutes :: "int option"
  rest_duration_minutes :: "int option"
  enforce_rest :: "bool option"
  allowed_start_time :: "string option"
  allowed_end_time :: "string option"
  enforce_lunch_routine :: "bool option"
  lunch_start_time :: "string option"
  lunch_end_time :: "string option"
  sessions :: "session list option"

type_synonym firestore = "string \<rightharpoonup> user_doc"

record rest_data =
  start_time :: py_datetime
  duration_minutes :: int

text \<open>
  What the program shows or sends, in the order it does so: the message boxes, the tray
  notifications and the e-mails. An event stands for the call; whether a tray icon exists
  and whether e-mail is switched on is left to \<^verbatim>\<open>_show_tray_notification\<close> and
  \<^verbatim>\<open>send_email_notification\<close>. \<^verbatim>\<open>send_block_limit_email\<close> and
  \<^verbatim>\<open>send_rest_ended_email\<close> have an empty body in the source and leave no event.
  Every function below reads the clock once: \<open>now\<close> is that reading.
\<close>

datatype event =
    AskLunch
  | AskTeeth
  | TeethReminder
  | NotAllowedWarning string string
  | NotSetCorrectlyWarning
  | SessionStartedNotification string
  | SessionStoppedNotification string string
  | DailyLimitTray string int int
  | DailyLimitEmail string int int
  | BlockLimitTray string int int
  | RestEndedTray string
  | RaisedAttributeError

text \<open>The answers the child gives to the two yes/no message boxes.\<close>

record answers =
  had_lunch :: bool
  brushed_teeth :: bool

text \<open>
  The fields of \<^verbatim>\<open>GameSentryApp\<close> that the time-budget code uses. A notification key
  \<^verbatim>\<open>f"{user_id}_{date}"\<close> is kept as the pair of the user id and the date.
\<close>

record app =
  db :: "firestore option"
  current_kid_user :: "(string \<times> user_doc) option"
  kid_timer_running :: bool
  kid_timer_start_time :: "py_datetime option"
  kid_session_log :: "session list"
  daily_limit_notifications :: "(string \<times> py_date) set"
  block_limit_notifications :: "(string \<times> py_date) set"
  kid_rest_periods :: "string \<rightharpoonup> rest_data"
  lunch_confirmed_today :: "string \<rightharpoonup> py_date"
  events :: "event list"

definition dict_get :: "'a option \<Rightarrow> 'a \<Rightarrow> 'a" where
  \<comment> \<open>\<^verbatim>\<open>d.get(key, default)\<close>\<close>
  "dict_get v dflt = (case v of None \<Rightarrow> dflt | Some x \<Rightarrow> x)"

definition emit :: "event list \<Rightarrow> app \<Rightarrow> app" where
  "emit es a = a\<lparr>events := events a @ es\<rparr>"

section \<open>Firestore access\<close>

definition get_user :: "firestore option \<Rightarrow> string \<Rightarrow> (string \<times> user_doc) option" where
  "get_user d user_id =
     (case d of
        None \<Rightarrow> None
      | Some m \<Rightarrow> (case m user_id of None \<Rightarrow> None | Some user_data \<Rightarrow> Some (user_id, user_data)))"

definition get_session_logs_for_user :: "firestore option \<Rightarrow> string \<Rightarrow> session list" where
  "get_session_logs_for_user d user_id =
     (case d of
        None \<Rightarrow> []
      | Some m \<Rightarrow> (case m user_id of None \<Rightarrow> [] | Some data \<Rightarrow> dict_get (sessions data) []))"

definition ArrayUnion :: "session list \<Rightarrow> session \<Rightarrow> session list" where
  \<comment> \<open>Firestore adds the element unless the array already holds it\<close>
  "ArrayUnion arr x = (if x \<in> set arr then arr else arr @ [x])"

definition add_session_log_to_user ::
  "firestore option \<Rightarrow> string \<Rightarrow> session \<Rightarrow> bool \<times> firestore option" where
  "add_session_log_to_user d user_id session_log =
     (case d of
        None \<Rightarrow> (False, d)
      | Some m \<Rightarrow>
          (case m user_id of
             None \<Rightarrow> (False, d)
           | Some data \<Rightarrow>
               (True, Some (m(user_id \<mapsto>
                  data\<lparr>sessions := Some (ArrayUnion (dict_get (sessions data) []) session_log)\<rparr>)))))"

definition update_sessions ::
  "firestore \<Rightarrow> string \<Rightarrow> session list \<Rightarrow> firestore option" where
  \<comment> \<open>\<^verbatim>\<open>user_doc.update({'sessions': sessions})\<close>; \<open>None\<close> when there is no such document\<close>
  "update_sessions m user_id new_sessions =
     (case m user_id of
        None \<Rightarrow> None
      | Some data \<Rightarrow> Some (m(user_id \<mapsto> data\<lparr>sessions := Some new_sessions\<rparr>)))"

section \<open>Usage totals\<close>

definition parse_duration :: "string \<Rightarrow> int option" where
  \<comment> \<open>the seconds a stored duration adds to the total; \<open>None\<close> is a \<^verbatim>\<open>ValueError\<close>\<close>
  "parse_duration duration_str =
     (let time_parts = str_split CHR '':'' duration_str in
      if length time_parts = 3 then
        (case py_int (time_parts ! 0) of
           None \<Rightarrow> None
         | Some hours \<Rightarrow>
             (case py_int (time_parts ! 1) of
                None \<Rightarrow> None
              | Some minutes \<Rightarrow>
                  (case py_int (time_parts ! 2) of
                     None \<Rightarrow> None
                   | Some seconds \<Rightarrow> Some (hours * 3600 + minutes * 60 + seconds))))
      else Some 0)"

fun daily_usage_loop :: "py_date \<Rightarrow> session list \<Rightarrow> int \<Rightarrow> int" where
  "daily_usage_loop today [] total_seconds = total_seconds"
| "daily_usage_loop today (s # ss) total_seconds =
     daily_usage_loop today ss
       (case strptime_YmdHMS (start s) of
          None \<Rightarrow> total_seconds
        | Some start_dt \<Rightarrow>
            if date_of start_dt = today then
              (case parse_duration (duration s) of
                 None \<Rightarrow> total_seconds
               | Some session_seconds \<Rightarrow> total_seconds + session_seconds)
            else total_seconds)"

definition current_session_seconds :: "app \<Rightarrow> string \<Rightarrow> py_datetime \<Rightarrow> int" where
  \<comment> \<open>"Add current session time if timer is running": the same lines in both totals\<close>
  "current_session_seconds a user_id now =
     (case kid_timer_start_time a of
        None \<Rightarrow> 0
      | Some timer_start \<Rightarrow>
          if kid_timer_running a then
            (if map_option fst (current_kid_user a) = Some user_id
             then int_total_seconds (now - timer_start) else 0)
          else 0)"

definition calculate_daily_usage :: "app \<Rightarrow> string \<Rightarrow> py_datetime \<Rightarrow> int" where
  "calculate_daily_usage a user_id now =
     (case db a of
        None \<Rightarrow> 0
      | Some _ \<Rightarrow>
          daily_usage_loop (date_of now) (get_session_logs_for_user (db a) user_id) 0
            + current_session_seconds a user_id now)"

definition get_last_rest_end_time :: "app \<Rightarrow> string \<Rightarrow> py_datetime \<Rightarrow> py_datetime" where
  "get_last_rest_end_time a user_id now =
     (case kid_rest_periods a user_id of
        Some rest \<Rightarrow> start_time rest + timedelta_minutes (duration_minutes rest)
      | None \<Rightarrow> start_of_day now)"

definition is_user_in_rest :: "app \<Rightarrow> string \<Rightarrow> py_datetime \<Rightarrow> bool" where
  "is_user_in_rest a user_id now =
     (case kid_rest_periods a user_id of
        None \<Rightarrow> False
      | Some rest \<Rightarrow> now < start_time rest + timedelta_minutes (duration_minutes rest))"

definition get_rest_remaining_seconds :: "app \<Rightarrow> string \<Rightarrow> py_datetime \<Rightarrow> int" where
  "get_rest_remaining_seconds a user_id now =
     (if \<not> is_user_in_rest a user_id now then 0
      else
        (case kid_rest_periods a user_id of
           None \<Rightarrow> 0
         | Some rest \<Rightarrow>
             max 0 (int_total_seconds
               (start_time rest + timedelta_minutes (duration_minutes rest) - now))))"

fun block_usage_loop :: "py_date \<Rightarrow> py_datetime \<Rightarrow> session list \<Rightarrow> int \<Rightarrow> int" where
  "block_usage_loop today last_rest_end [] total_seconds = total_seconds"
| "block_usage_loop today last_rest_end (s # ss) total_seconds =
     block_usage_loop today last_rest_end ss
       (case strptime_YmdHMS (start s) of
          None \<Rightarrow> total_seconds
        | Some start_dt \<Rightarrow>
            if date_of start_dt = today \<and> start_dt \<ge> last_rest_end then
              (case parse_duration (duration s) of
                 None \<Rightarrow> total_seconds
               | Some session_seconds \<Rightarrow> total_seconds + session_seconds)
            else total_seconds)"

definition calculate_block_usage :: "app \<Rightarrow> string \<Rightarrow> py_datetime \<Rightarrow> int" where
  "calculate_block_usage a user_id now =
     (case db a of
        None \<Rightarrow> 0
      | Some _ \<Rightarrow>
          (case get_user (db a) user_id of
             None \<Rightarrow> 0
           | Some _ \<Rightarrow>
               if is_user_in_rest a user_id now then 0
               else
                 block_usage_loop (date_of now) (get_last_rest_end_time a user_id now)
                     (get_session_logs_for_user (db a) user_id) 0
                   + current_session_seconds a user_id now))"

definition calculate_daily_remaining :: "app \<Rightarrow> string \<Rightarrow> py_datetime \<Rightarrow> int" where
  "calculate_daily_remaining a user_id now =
     (case db a of
        None \<Rightarrow> 0
      | Some _ \<Rightarrow>
          (case get_user (db a) user_id of
             None \<Rightarrow> 0
           | Some (_, user_data) \<Rightarrow>
               (case max_daily_minutes user_data of
                  None \<Rightarrow> 0
                | Some daily_limit \<Rightarrow>
                    (let daily_limit_seconds = daily_limit * 60;
                         current_usage_seconds = calculate_daily_usage a user_id now;
                         remaining = daily_limit_seconds - current_usage_seconds
                     in max 0 remaining))))"

definition format_time_remaining :: "int \<Rightarrow> string" where
  "format_time_remaining seconds =
     (if seconds \<le> 0 then ''No time left''
      else if seconds < 3600 then
        (let minutes = seconds div 60; remaining_seconds = seconds mod 60
         in str_int minutes @ ''m '' @ zfill 2 remaining_seconds @ ''s'')
      else
        (let hours = seconds div 3600;
             remaining_seconds = seconds mod 3600;
             minutes = remaining_seconds div 60;
             final_seconds = remaining_seconds mod 60
         in str_int hours @ ''h '' @ zfill 2 minutes @ ''m '' @ zfill 2 final_seconds @ ''s''))"

section \<open>Rest periods and limit checks\<close>

definition start_rest_period :: "string \<Rightarrow> int \<Rightarrow> py_datetime \<Rightarrow> app \<Rightarrow> app" where
  "start_rest_period user_id minutes now a =
     a\<lparr>kid_rest_periods :=
         (kid_rest_periods a)(user_id \<mapsto> \<lparr>start_time = now, duration_minutes = minutes\<rparr>)\<rparr>"

definition check_block_limit :: "string \<Rightarrow> string \<Rightarrow> py_datetime \<Rightarrow> app \<Rightarrow> app" where
  "check_block_limit user_id uname now a =
     (case db a of
        None \<Rightarrow> a
      | Some _ \<Rightarrow>
          (case get_user (db a) user_id of
             None \<Rightarrow> a
           | Some (_, user_data) \<Rightarrow>
               (case max_session_minutes user_data of
                  None \<Rightarrow> a
                | Some block_limit \<Rightarrow>
                    if \<not> dict_get (enforce_rest user_data) True then a
                    else
                      (let current_block_usage = calculate_block_usage a user_id now;
                           block_limit_seconds = block_limit * 60;
                           today_key = (user_id, date_of now)
                       in if today_key \<in> block_limit_notifications a then a
                          else if current_block_usage \<ge> block_limit_seconds then
                            (let rest_duration = dict_get (rest_duration_minutes user_data) 60;
                                 a1 = start_rest_period user_id rest_duration now a;
                                 a2 = emit [BlockLimitTray uname block_limit rest_duration] a1
                             in a2\<lparr>block_limit_notifications :=
                                      insert today_key (block_limit_notifications a2)\<rparr>)
                          else a))))"

definition check_rest_period_end :: "string \<Rightarrow> string \<Rightarrow> py_datetime \<Rightarrow> app \<Rightarrow> app" where
  "check_rest_period_end user_id uname now a =
     (if \<not> is_user_in_rest a user_id now then a
      else
        (let rest_remaining = get_rest_remaining_seconds a user_id now
         in if rest_remaining \<le> 0 then
              emit [RestEndedTray uname]
                (a\<lparr>kid_rest_periods := (kid_rest_periods a)(user_id := None)\<rparr>)
            else a))"

definition cleanup_old_notifications :: "py_datetime \<Rightarrow> app \<Rightarrow> app" where
  \<comment> \<open>a key is dropped when the text after its first underscore is not a date (so: when
      the user id has an underscore), or when its date is more than one day old\<close>
  "cleanup_old_notifications now a =
     a\<lparr>daily_limit_notifications :=
         Set.filter (\<lambda>(uid, d). CHR ''_'' \<notin> set uid \<and> date_of now - d \<le> 1)
           (daily_limit_notifications a)\<rparr>"

definition check_daily_limit :: "string \<Rightarrow> string \<Rightarrow> py_datetime \<Rightarrow> app \<Rightarrow> app" where
  "check_daily_limit user_id uname now a =
     (case db a of
        None \<Rightarrow> a
      | Some _ \<Rightarrow>
          (case get_user (db a) user_id of
             None \<Rightarrow> a
           | Some (_, user_data) \<Rightarrow>
               (case max_daily_minutes user_data of
                  None \<Rightarrow> a
                | Some daily_limit \<Rightarrow>
                    (let current_usage = calculate_daily_usage a user_id now;
                         today_key = (user_id, date_of now)
                     in if today_key \<in> daily_limit_notifications a then a
                        else if current_usage \<ge> daily_limit then
                          (let safe_username = (if uname = [] then ''Unknown User'' else uname);
                               a1 = emit [DailyLimitTray uname daily_limit current_usage,
                                          DailyLimitEmail safe_username daily_limit current_usage] a;
                               a2 = a1\<lparr>daily_limit_notifications :=
                                          insert today_key (daily_limit_notifications a1)\<rparr>
                           in cleanup_old_notifications now a2)
                        else a))))"

section \<open>The gates of a session start\<close>

definition is_lunch_routine_required :: "answers \<Rightarrow> py_datetime \<Rightarrow> app \<Rightarrow> bool \<times> app" where
  "is_lunch_routine_required ans now a =
     (case current_kid_user a of
        None \<Rightarrow> (False, a)
      | Some (user_id, user) \<Rightarrow>
          if \<not> dict_get (enforce_lunch_routine user) False then (False, a)
          else
            (case strptime_HM (dict_get (lunch_start_time user) ''12:00'') of
               None \<Rightarrow> (False, a)
             | Some lunch_start \<Rightarrow>
                 (case strptime_HM (dict_get (lunch_end_time user) ''13:00'') of
                    None \<Rightarrow> (False, a)
                  | Some lunch_end \<Rightarrow>
                      if \<not> (lunch_start \<le> time_of now \<and> time_of now \<le> lunch_end)
                      then (False, a)
                      else
                        (let today = date_of now
                         in if lunch_confirmed_today a user_id = Some today then
                              (if \<not> brushed_teeth ans
                               then (True, emit [AskTeeth, TeethReminder] a)
                               else (False, emit [AskTeeth] a))
                            else if \<not> had_lunch ans then (False, emit [AskLunch] a)
                            else
                              (let a1 = emit [AskLunch]
                                     (a\<lparr>lunch_confirmed_today :=
                                          (lunch_confirmed_today a)(user_id \<mapsto> today)\<rparr>)
                               in if \<not> brushed_teeth ans
                                  then (True, emit [AskTeeth, TeethReminder] a1)
                                  else (False, emit [AskTeeth] a1))))))"

definition in_lunch_window :: "user_doc \<Rightarrow> py_datetime \<Rightarrow> bool" where
  \<comment> \<open>"Only run the routine during lunch hours": both times parse and
      \<^verbatim>\<open>lunch_start <= now <= lunch_end\<close>\<close>
  "in_lunch_window user now =
     (case strptime_HM (dict_get (lunch_start_time user) ''12:00'') of
        None \<Rightarrow> False
      | Some lunch_start \<Rightarrow>
          (case strptime_HM (dict_get (lunch_end_time user) ''13:00'') of
             None \<Rightarrow> False
           | Some lunch_end \<Rightarrow> lunch_start \<le> time_of now \<and> time_of now \<le> lunch_end))"

datatype hours_check = InRange | NotInRange string string | NotSetCorrectly

definition enforce_allowed_play_hours :: "user_doc \<Rightarrow> py_datetime \<Rightarrow> hours_check" where
  \<comment> \<open>the block "ENFORCE ALLOWED PLAY HOURS" of \<^verbatim>\<open>start_stop_timer\<close>\<close>
  "enforce_allowed_play_hours user now =
     (let allowed_start = dict_get (allowed_start_time user) ''15:00'';
          allowed_end = dict_get (allowed_end_time user) ''18:00''
      in case strptime_HM allowed_start of
           None \<Rightarrow> NotSetCorrectly
         | Some allowed_start_t \<Rightarrow>
             (case strptime_HM allowed_end of
                None \<Rightarrow> NotSetCorrectly
              | Some allowed_end_t \<Rightarrow>
                  (let in_range =
                         (if allowed_start_t \<le> allowed_end_t
                          then allowed_start_t \<le> time_of now \<and> time_of now \<le> allowed_end_t
                          else time_of now \<ge> allowed_start_t \<or> time_of now \<le> allowed_end_t)
                   in if \<not> in_range then NotInRange allowed_start allowed_end else InRange)))"

section \<open>Starting and stopping the timer\<close>

definition format_duration :: "py_timedelta \<Rightarrow> string" where
  \<comment> \<open>\<^verbatim>\<open>_format_duration(td.total_seconds())\<close>\<close>
  "format_duration td =
     (let seconds = int_total_seconds td;
          h = seconds div 3600;
          m = (seconds mod 3600) div 60;
          s = seconds mod 60
      in zfill 2 h @ '':'' @ zfill 2 m @ '':'' @ zfill 2 s)"

definition session_entry :: "py_datetime \<Rightarrow> py_datetime \<Rightarrow> session" where
  \<comment> \<open>the dictionary \<^verbatim>\<open>session_entry\<close> that the stop branch builds\<close>
  "session_entry timer_start end_time =
     \<lparr>start = strftime_YmdHMS timer_start,
      stop = strftime_YmdHMS end_time,
      duration = format_duration (end_time - timer_start)\<rparr>"

definition stop_timer :: "py_datetime \<Rightarrow> app \<Rightarrow> app" where
  \<comment> \<open>the \<^verbatim>\<open>else\<close> branch of \<^verbatim>\<open>start_stop_timer\<close>\<close>
  "stop_timer now a =
     (let a1 = a\<lparr>kid_timer_running := False\<rparr>;
          end_time = now
      in case kid_timer_start_time a1 of
           None \<Rightarrow> a1\<lparr>kid_timer_start_time := None\<rparr>
         | Some timer_start \<Rightarrow>
             (let entry = session_entry timer_start end_time;
                  a2 =
                    (case current_kid_user a1 of
                       None \<Rightarrow> a1
                     | Some (user_id, user) \<Rightarrow>
                         (let a3 = a1\<lparr>db := snd (add_session_log_to_user (db a1) user_id entry)\<rparr>;
                              uname = dict_get (username user) ''Kid'';
                              a4 = emit [SessionStoppedNotification uname
                                           (format_duration (end_time - timer_start))] a3
                          in if user_id \<noteq> [] then check_daily_limit user_id uname now a4 else a4))
              in a2\<lparr>kid_session_log := kid_session_log a2 @ [entry],
                    kid_timer_start_time := None\<rparr>))"

definition start_stop_timer :: "answers \<Rightarrow> py_datetime \<Rightarrow> app \<Rightarrow> app" where
  "start_stop_timer ans now a =
     (if \<not> kid_timer_running a then
        (case is_lunch_routine_required ans now a of
           (True, a1) \<Rightarrow> a1
         | (False, a1) \<Rightarrow>
             (case current_kid_user a1 of
                None \<Rightarrow> emit [RaisedAttributeError] a1
              | Some (user_id, user) \<Rightarrow>
                  (case enforce_allowed_play_hours user now of
                     NotInRange allowed_start allowed_end \<Rightarrow>
                       emit [NotAllowedWarning allowed_start allowed_end] a1
                   | NotSetCorrectly \<Rightarrow> emit [NotSetCorrectlyWarning] a1
                   | InRange \<Rightarrow>
                       (let uname = dict_get (username user) ''Kid'';
                            a2 = emit [SessionStartedNotification uname] a1
                        in a2\<lparr>kid_timer_running := True, kid_timer_start_time := Some now\<rparr>))))
      else stop_timer now a)"

section \<open>Manual entries and edits of the session log\<close>

datatype outcome =
    Saved
  | Cancelled
  | NothingSelected
  | InvalidInput
  | InvalidTime
  | InvalidTimeRange
  | TimeOverlap string string
  | Raised

fun overlap_check :: "py_datetime \<Rightarrow> py_datetime \<Rightarrow> session list \<Rightarrow> session option" where
  \<comment> \<open>the loop "Overlap check" of \<^verbatim>\<open>ManualEntryDialog.save\<close>: the first stored interval
      that the new one overlaps\<close>
  "overlap_check start_dt stop_dt [] = None"
| "overlap_check start_dt stop_dt (other # others) =
     (case strptime_YmdHMS (start other) of
        None \<Rightarrow> overlap_check start_dt stop_dt others
      | Some other_start \<Rightarrow>
          (case strptime_YmdHMS (stop other) of
             None \<Rightarrow> overlap_check start_dt stop_dt others
           | Some other_stop \<Rightarrow>
               if start_dt < other_stop \<and> stop_dt > other_start then Some other
               else overlap_check start_dt stop_dt others))"

definition timedelta_str :: "py_timedelta \<Rightarrow> string" where
  \<comment> \<open>the \<^verbatim>\<open>duration_str\<close> of \<^verbatim>\<open>save\<close>, for a difference of whole seconds that is not negative\<close>
  "timedelta_str td =
     (let total_seconds = td div us_per_second in
      if td div us_per_day > 0 then
        (let h = total_seconds div 3600;
             m = (total_seconds mod 3600) div 60;
             s = total_seconds mod 60
         in zfill 2 h @ '':'' @ zfill 2 m @ '':'' @ zfill 2 s)
      else
        (let seconds = (td mod us_per_day) div us_per_second;
             h = seconds div 3600; rem = seconds mod 3600;
             m = rem div 60; s = rem mod 60
         in zfill 2 h @ '':'' @ zfill 2 m @ '':'' @ zfill 2 s))"

definition manual_entry_save ::
  "string \<Rightarrow> string \<Rightarrow> string \<Rightarrow> string \<Rightarrow> firestore option \<Rightarrow> outcome \<times> firestore option" where
  \<comment> \<open>\<^verbatim>\<open>ManualEntryDialog.save\<close> for the user \<open>user_id\<close> and the three entry fields\<close>
  "manual_entry_save user_id date_s start_s stop_s d =
     (case strptime_YmdHM (date_s @ '' '' @ start_s) of
        None \<Rightarrow> (InvalidInput, d)
      | Some start_dt \<Rightarrow>
          (case strptime_YmdHM (date_s @ '' '' @ stop_s) of
             None \<Rightarrow> (InvalidInput, d)
           | Some stop_dt0 \<Rightarrow>
               (let stop_dt = (if stop_dt0 < start_dt then stop_dt0 + us_per_day else stop_dt0);
                    duration_str = timedelta_str (stop_dt - start_dt)
                in if start_dt > stop_dt then (InvalidTimeRange, d)
                   else
                     (let stored = get_session_logs_for_user d user_id
                      in case overlap_check start_dt stop_dt stored of
                           Some other \<Rightarrow> (TimeOverlap (start other) (stop other), d)
                         | None \<Rightarrow>
                             (case d of
                                None \<Rightarrow> (Raised, d)
                              | Some m \<Rightarrow>
                                  (case update_sessions m user_id
                                          (stored @ [\<lparr>start = strftime_YmdHMS start_dt,
                                                      stop = strftime_YmdHMS stop_dt,
                                                      duration = duration_str\<rparr>]) of
                                     None \<Rightarrow> (Raised, d)
                                   | Some m' \<Rightarrow> (Saved, Some m')))))))"

fun overlap_check_edit ::
  "int \<Rightarrow> py_datetime \<Rightarrow> py_datetime \<Rightarrow> int \<Rightarrow> session list \<Rightarrow> session option" where
  \<comment> \<open>the loop of \<^verbatim>\<open>edit_selected_log\<close> over \<^verbatim>\<open>enumerate(sessions)\<close>, from index \<open>idx\<close> on\<close>
  "overlap_check_edit session_idx start_dt stop_dt idx [] = None"
| "overlap_check_edit session_idx start_dt stop_dt idx (other # others) =
     (if idx = session_idx then overlap_check_edit session_idx start_dt stop_dt (idx + 1) others
      else
        (case strptime_YmdHMS (start other) of
           None \<Rightarrow> overlap_check_edit session_idx start_dt stop_dt (idx + 1) others
         | Some other_start \<Rightarrow>
             (case strptime_YmdHMS (stop other) of
                None \<Rightarrow> overlap_check_edit session_idx start_dt stop_dt (idx + 1) others
              | Some other_stop \<Rightarrow>
                  if start_dt < other_stop \<and> stop_dt > other_start then Some other
                  else overlap_check_edit session_idx start_dt stop_dt (idx + 1) others)))"

definition edit_selected_log ::
  "string \<Rightarrow> int \<Rightarrow> string option \<Rightarrow> string option \<Rightarrow> string option
     \<Rightarrow> firestore option \<Rightarrow> outcome \<times> firestore option" where
  \<comment> \<open>the selected row is entry \<open>session_idx\<close> of user \<open>user_id\<close>; the three dialogs
      return \<open>None\<close> when cancelled\<close>
  "edit_selected_log user_id session_idx new_start new_stop new_duration d =
     (case d of
        None \<Rightarrow> (NothingSelected, d)
      | Some m \<Rightarrow>
          (let stored = (case m user_id of None \<Rightarrow> [] | Some data \<Rightarrow> dict_get (sessions data) [])
           in if 0 \<le> session_idx \<and> session_idx < int (length stored) then
                (case new_start of
                   None \<Rightarrow> (Cancelled, d)
                 | Some ns \<Rightarrow>
                     (case new_stop of
                        None \<Rightarrow> (Cancelled, d)
                      | Some nt \<Rightarrow>
                          (case new_duration of
                             None \<Rightarrow> (Cancelled, d)
                           | Some nd \<Rightarrow>
                               (case strptime_YmdHMS ns of
                                  None \<Rightarrow> (InvalidTime, d)
                                | Some start_dt \<Rightarrow>
                                    (case strptime_YmdHMS nt of
                                       None \<Rightarrow> (InvalidTime, d)
                                     | Some stop_dt \<Rightarrow>
                                         if start_dt > stop_dt then (InvalidTimeRange, d)
                                         else
                                           (case overlap_check_edit session_idx start_dt stop_dt 0 stored of
                                              Some other \<Rightarrow> (TimeOverlap (start other) (stop other), d)
                                            | None \<Rightarrow>
                                                (case update_sessions m user_id
                                                        (stored[nat session_idx :=
                                                           \<lparr>start = ns, stop = nt, duration = nd\<rparr>]) of
                                                   None \<Rightarrow> (Raised, d)
                                                 | Some m' \<Rightarrow> (Saved, Some m'))))))))
              else (NothingSelected, d)))"

section \<open>Saving a kid's settings\<close>

text \<open>
  The form of the user management window. The conversion of the date of birth is outside
  the time-budget code: \<open>dob_ok\<close> says whether it went through without a
  \<^verbatim>\<open>ValueError\<close>.
\<close>

record user_form =
  dob_ok :: bool
  max_session_var :: string
  max_daily_var :: string
  rest_time_var :: string
  lunch_start_entry :: string
  lunch_end_entry :: string
  allowed_start_entry :: string
  allowed_end_entry :: string
  enforce_lunch_routine_var :: bool

definition kid_settings :: "user_form \<Rightarrow> user_doc \<Rightarrow> user_doc option" where
  \<comment> \<open>the \<^verbatim>\<open>try\<close> block of \<^verbatim>\<open>_gather_and_save_user\<close>: the keys it sets in the document
      that \<^verbatim>\<open>add_user\<close> or \<^verbatim>\<open>update_user\<close> then writes; \<open>None\<close> is the \<^verbatim>\<open>ValueError\<close>\<close>
  "kid_settings form user_data =
     (if \<not> dob_ok form then None
      else
        (case py_int (max_session_var form) of
           None \<Rightarrow> None
         | Some max_session \<Rightarrow>
             (case py_int (max_daily_var form) of
                None \<Rightarrow> None
              | Some max_daily \<Rightarrow>
                  (case py_int (rest_time_var form) of
                     None \<Rightarrow> None
                   | Some rest \<Rightarrow>
                       Some (user_data
                         \<lparr>max_session_minutes := Some max_session,
                          max_daily_minutes := Some max_daily,
                          rest_minutes := Some rest,
                          lunch_start_time := Some (lunch_start_entry form),
                          lunch_end_time := Some (lunch_end_entry form),
                          allowed_start_time := Some (allowed_start_entry form),
                          allowed_end_time := Some (allowed_end_entry form),
                          enforce_lunch_routine := Some (enforce_lunch_routine_var form)\<rparr>)))))"

definition new_user :: "string \<Rightarrow> user_doc" where
  \<comment> \<open>the document of \<^verbatim>\<open>add_user_gui\<close> before the settings are gathered\<close>
  "new_user uname =
     \<lparr>username = Some uname, max_session_minutes = None, max_daily_minutes = None,
      rest_minutes = None, rest_duration_minutes = None, enforce_rest = None,
      allowed_start_time = None, allowed_end_time = None, enforce_lunch_routine = None,
      lunch_start_time = None, lunch_end_time = None, sessions = None\<rparr>"

section \<open>Example states\<close>

definition init_app :: "firestore \<Rightarrow> app" where
  \<comment> \<open>the application after \<^verbatim>\<open>__init__\<close>, on the given collection\<close>
  "init_app m =
     \<lparr>db = Some m, current_kid_user = None, kid_timer_running = False,
      kid_timer_start_time = None, kid_session_log = [],
      daily_limit_notifications = {}, block_limit_notifications = {},
      kid_rest_periods = Map.empty, lunch_confirmed_today = Map.empty, events = []\<rparr>"

definition one_minute_played :: "int option \<Rightarrow> app" where
  \<comment> \<open>one kid with the given daily limit, who played one minute on 2024-03-10\<close>
  "one_minute_played daily_limit =
     init_app [''kid1'' \<mapsto> (new_user ''Ann'')
       \<lparr>max_daily_minutes := daily_limit,
        sessions := Some [\<lparr>start = ''2024-03-10 10:00:00'', stop = ''2024-03-10 10:01:00'',
                           duration = ''00:01:00''\<rparr>]\<rparr>]"

definition selected :: "user_doc \<Rightarrow> app" where
  \<comment> \<open>the kid view of the user \<^verbatim>\<open>kid1\<close> with the given document, timer not running\<close>
  "selected u = (init_app [''kid1'' \<mapsto> u])\<lparr>current_kid_user := Some (''kid1'', u)\<rparr>"

definition resting :: app where
  \<comment> \<open>a rest period of 60 minutes that began on 2024-03-10 at 12:00\<close>
  "resting =
     (init_app [''kid1'' \<mapsto> new_user ''Ann''])
       \<lparr>kid_rest_periods :=
          [''kid1'' \<mapsto> \<lparr>start_time = at 2024 3 10 12 0 0, duration_minutes = 60\<rparr>]\<rparr>"

definition ann_form :: user_form where
  \<comment> \<open>the form of a kid with a play time limit of 1 minute and a rest time of 30 minutes\<close>
  "ann_form =
     \<lparr>dob_ok = True, max_session_var = ''1'', max_daily_var = ''120'', rest_time_var = ''30'',
      lunch_start_entry = ''12:00'', lunch_end_entry = ''13:00'',
      allowed_start_entry = ''15:00'', allowed_end_entry = ''18:00'',
      enforce_lunch_routine_var = False\<rparr>"

definition saved_kid :: app where
  \<comment> \<open>the kid saved from \<open>ann_form\<close>, after one minute of play on 2024-03-10\<close>
  "saved_kid =
     init_app [''kid1'' \<mapsto>
       (case kid_settings ann_form (new_user ''Ann'') of
          None \<Rightarrow> new_user ''Ann''
        | Some doc \<Rightarrow> doc)
       \<lparr>sessions := Some [\<lparr>start = ''2024-03-10 10:00:00'', stop = ''2024-03-10 10:01:00'',
                           duration = ''00:01:00''\<rparr>]\<rparr>]"

definition limit_120 :: user_doc where
  "limit_120 = (new_user ''Ann'')\<lparr>max_session_minutes := Some 120\<rparr>"

definition long_session :: app where
  \<comment> \<open>a kid with a play time limit of 120 minutes, whose timer runs since 10:00\<close>
  "long_session =
     (selected limit_120)
       \<lparr>kid_timer_running := True, kid_timer_start_time := Some (at 2024 3 10 10 0 0)\<rparr>"

definition night_owl :: user_doc where
  "night_owl =
     (new_user ''Ann'')\<lparr>allowed_start_time := Some ''22:00'', allowed_end_time := Some ''06:00''\<rparr>"

definition bad_allowed_hours :: user_doc where
  "bad_allowed_hours = (new_user ''Ann'')\<lparr>allowed_start_time := Some ''25:00''\<rparr>"

definition bad_lunch_hours :: user_doc where
  "bad_lunch_hours =
     (new_user ''Ann'')\<lparr>enforce_lunch_routine := Some True, lunch_start_time := Some ''noon''\<rparr>"

definition lunch_kid :: user_doc where
  "lunch_kid =
     (new_user ''Ann'')
       \<lparr>enforce_lunch_routine := Some True,
        allowed_start_time := Some ''08:00'', allowed_end_time := Some ''20:00''\<rparr>"

definition yes_no :: answers where
  "yes_no = \<lparr>had_lunch = True, brushed_teeth = False\<rparr>"

definition yes_yes :: answers where
  "yes_yes = \<lparr>had_lunch = True, brushed_teeth = True\<rparr>"

definition no_no :: answers where
  "no_no = \<lparr>had_lunch = False, brushed_teeth = False\<rparr>"

definition two_sessions :: firestore where
  "two_sessions =
     [''kid1'' \<mapsto> (new_user ''Ann'')
        \<lparr>sessions := Some
           [\<lparr>start = ''2024-03-10 10:00:00'', stop = ''2024-03-10 11:00:00'',
              duration = ''01:00:00''\<rparr>,
            \<lparr>start = ''2024-03-10 12:00:00'', stop = ''2024-03-10 13:00:00'',
              duration = ''01:00:00''\<rparr>]\<rparr>]"

section \<open>Verified properties\<close>

subsection \<open>What the checks leave alone\<close>

lemma check_daily_limit_frame:
  "kid_rest_periods (check_daily_limit uid un now a) = kid_rest_periods a"
  "block_limit_notifications (check_daily_limit uid un now a) = block_limit_notifications a"
  "kid_session_log (check_daily_limit uid un now a) = kid_session_log a"
  "db (check_daily_limit uid un now a) = db a"
  "kid_timer_running (check_daily_limit uid un now a) = kid_timer_running a"
  "kid_timer_start_time (check_daily_limit uid un now a) = kid_timer_start_time a"
  by (simp_all add: check_daily_limit_def cleanup_old_notifications_def emit_def Let_def
        split: option.splits prod.splits)

lemma lunch_routine_frame:
  "current_kid_user (snd (is_lunch_routine_required ans now a)) = current_kid_user a"
  "kid_timer_running (snd (is_lunch_routine_required ans now a)) = kid_timer_running a"
  "kid_timer_start_time (snd (is_lunch_routine_required ans now a)) = kid_timer_start_time a"
  by (simp_all add: is_lunch_routine_required_def emit_def Let_def
        split: option.splits prod.splits)

lemma lunch_routine_not_enforced:
  "current_kid_user a = Some (uid, u) \<Longrightarrow> enforce_lunch_routine u \<noteq> Some True \<Longrightarrow>
   is_lunch_routine_required ans now a = (False, a)"
  by (cases "enforce_lunch_routine u") (auto simp add: is_lunch_routine_required_def dict_get_def)

lemma start_attempt:
  "\<not> kid_timer_running a \<Longrightarrow> current_kid_user a = Some (uid, u) \<Longrightarrow>
   start_stop_timer ans now a =
     (let a1 = snd (is_lunch_routine_required ans now a) in
      if fst (is_lunch_routine_required ans now a) then a1
      else (case enforce_allowed_play_hours u now of
              NotInRange allowed_start allowed_end \<Rightarrow>
                emit [NotAllowedWarning allowed_start allowed_end] a1
            | NotSetCorrectly \<Rightarrow> emit [NotSetCorrectlyWarning] a1
            | InRange \<Rightarrow>
                (emit [SessionStartedNotification (dict_get (username u) ''Kid'')] a1)
                  \<lparr>kid_timer_running := True, kid_timer_start_time := Some now\<rparr>))"
proof -
  assume h: "\<not> kid_timer_running a" "current_kid_user a = Some (uid, u)"
  obtain b a1 where r: "is_lunch_routine_required ans now a = (b, a1)"
    by (cases "is_lunch_routine_required ans now a")
  have "current_kid_user a1 = Some (uid, u)"
    using lunch_routine_frame(1) [of ans now a] r h by simp
  then show ?thesis
    using h r by (cases b) (simp_all add: start_stop_timer_def Let_def split: hours_check.splits)
qed

lemma started_iff:
  "\<not> kid_timer_running a \<Longrightarrow> current_kid_user a = Some (uid, u) \<Longrightarrow>
   kid_timer_running (start_stop_timer ans now a)
     \<longleftrightarrow> \<not> fst (is_lunch_routine_required ans now a)
           \<and> enforce_allowed_play_hours u now = InRange"
  by (simp add: start_attempt Let_def lunch_routine_frame emit_def split: hours_check.splits)

subsection \<open>The daily limit\<close>

lemma check_daily_limit_threshold:
  "get_user (db a) uid = Some (uid, u) \<Longrightarrow> max_daily_minutes u = Some daily_limit \<Longrightarrow>
   (uid, date_of now) \<notin> daily_limit_notifications a \<Longrightarrow>
   events (check_daily_limit uid un now a) =
     (if calculate_daily_usage a uid now \<ge> daily_limit
      then events a @ [DailyLimitTray un daily_limit (calculate_daily_usage a uid now),
                       DailyLimitEmail (if un = [] then ''Unknown User'' else un) daily_limit
                         (calculate_daily_usage a uid now)]
      else events a)"
  by (auto simp add: check_daily_limit_def get_user_def cleanup_old_notifications_def emit_def
        Let_def split: option.splits)

text \<open>
  C1 (the program departs from the claim). The claim: the daily-limit notification is
  raised exactly when the daily usage in seconds is at least \<open>max_daily_minutes * 60\<close>,
  and not below. \<^verbatim>\<open>_check_daily_limit\<close> compares the usage, which
  \<^verbatim>\<open>_calculate_daily_usage\<close> returns in seconds, with \<open>max_daily_minutes\<close> itself:
  a kid with a limit of 60 minutes who has played 60 seconds today is notified,
  with a usage of 60 seconds, far below the 3600 seconds of the limit.
\<close>

theorem daily_limit_fires_after_sixty_seconds:
  "calculate_daily_usage (one_minute_played (Some 60)) ''kid1'' (at 2024 3 10 12 0 0) = 60
   \<and> events (check_daily_limit ''kid1'' ''Ann'' (at 2024 3 10 12 0 0) (one_minute_played (Some 60)))
       = [DailyLimitTray ''Ann'' 60 60, DailyLimitEmail ''Ann'' 60 60]"
  by code_simp

subsection \<open>Stopping the timer\<close>

lemma ArrayUnion_member: "x \<in> set (ArrayUnion arr x)"
  by (simp add: ArrayUnion_def)

lemma added_session_is_stored:
  "get_user d uid \<noteq> None \<Longrightarrow>
   entry \<in> set (get_session_logs_for_user (snd (add_session_log_to_user d uid entry)) uid)"
  by (auto simp add: get_user_def add_session_log_to_user_def get_session_logs_for_user_def
        dict_get_def ArrayUnion_member split: option.splits)

text \<open>
  C2 (as stated, refuted). The claim: after every stop of a running session, once the
  interval is appended to the log, both the daily-limit check and the block-limit check
  run for the user. The stop branch calls \<^verbatim>\<open>_check_daily_limit\<close> only. A kid with a
  play time limit of 120 minutes stops a session of 125 minutes: the stored log then
  holds 7500 seconds for the block, no rest period has begun and no block-limit
  notification was shown, while \<^verbatim>\<open>_check_block_limit\<close>, had it run on that state, would
  have shown one.
\<close>

theorem stop_skips_block_limit_check:
  "get_session_logs_for_user (db (start_stop_timer no_no (at 2024 3 10 12 5 0) long_session)) ''kid1''
     = [\<lparr>start = ''2024-03-10 10:00:00'', stop = ''2024-03-10 12:05:00'',
         duration = ''02:05:00''\<rparr>]
   \<and> calculate_block_usage (start_stop_timer no_no (at 2024 3 10 12 5 0) long_session) ''kid1''
        (at 2024 3 10 12 5 0) = 7500
   \<and> kid_rest_periods (start_stop_timer no_no (at 2024 3 10 12 5 0) long_session) ''kid1'' = None
   \<and> events (start_stop_timer no_no (at 2024 3 10 12 5 0) long_session)
        = [SessionStoppedNotification ''Ann'' ''02:05:00'']
   \<and> events (check_block_limit ''kid1'' ''Ann'' (at 2024 3 10 12 5 0)
                (start_stop_timer no_no (at 2024 3 10 12 5 0) long_session))
        = [SessionStoppedNotification ''Ann'' ''02:05:00'', BlockLimitTray ''Ann'' 120 60]"
  by code_simp

text \<open>
  C2 (amended). After every stop of a running session of a kid with a non-empty id, the
  daily-limit check runs for that user on the state in which the interval has been
  handed to \<^verbatim>\<open>add_session_log_to_user\<close> (and is in the stored log when the user's
  document exists); the stop leaves the rest periods and the block-limit flags as they
  were: the block-limit check is not part of it.
\<close>

theorem stop_runs_daily_check_after_append:
  "kid_timer_running a \<and> kid_timer_start_time a = Some ts
     \<and> current_kid_user a = Some (uid, u) \<and> uid \<noteq> [] \<longrightarrow>
   start_stop_timer ans now a =
     (check_daily_limit uid (dict_get (username u) ''Kid'') now
        (emit [SessionStoppedNotification (dict_get (username u) ''Kid'')
                 (duration (session_entry ts now))]
           (a\<lparr>kid_timer_running := False,
              db := snd (add_session_log_to_user (db a) uid (session_entry ts now))\<rparr>)))
       \<lparr>kid_session_log := kid_session_log a @ [session_entry ts now],
        kid_timer_start_time := None\<rparr>
   \<and> (get_user (db a) uid \<noteq> None \<longrightarrow>
        session_entry ts now
          \<in> set (get_session_logs_for_user
                   (snd (add_session_log_to_user (db a) uid (session_entry ts now))) uid))
   \<and> kid_rest_periods (start_stop_timer ans now a) = kid_rest_periods a
   \<and> block_limit_notifications (start_stop_timer ans now a) = block_limit_notifications a"
proof (intro impI)
  assume h: "kid_timer_running a \<and> kid_timer_start_time a = Some ts
     \<and> current_kid_user a = Some (uid, u) \<and> uid \<noteq> []"
  have dur: "format_duration (now - ts) = duration (session_entry ts now)"
    by (simp add: session_entry_def)
  have eq: "start_stop_timer ans now a =
     (check_daily_limit uid (dict_get (username u) ''Kid'') now
        (emit [SessionStoppedNotification (dict_get (username u) ''Kid'')
                 (duration (session_entry ts now))]
           (a\<lparr>kid_timer_running := False,
              db := snd (add_session_log_to_user (db a) uid (session_entry ts now))\<rparr>)))
       \<lparr>kid_session_log := kid_session_log a @ [session_entry ts now],
        kid_timer_start_time := None\<rparr>"
    using h
    by (simp add: start_stop_timer_def stop_timer_def Let_def dur check_daily_limit_frame emit_def)
  have frame: "kid_rest_periods (start_stop_timer ans now a) = kid_rest_periods a"
      "block_limit_notifications (start_stop_timer ans now a) = block_limit_notifications a"
    by (simp_all add: eq check_daily_limit_frame emit_def)
  show "start_stop_timer ans now a =
     (check_daily_limit uid (dict_get (username u) ''Kid'') now
        (emit [SessionStoppedNotification (dict_get (username u) ''Kid'')
                 (duration (session_entry ts now))]
           (a\<lparr>kid_timer_running := False,
              db := snd (add_session_log_to_user (db a) uid (session_entry ts now))\<rparr>)))
       \<lparr>kid_session_log := kid_session_log a @ [session_entry ts now],
        kid_timer_start_time := None\<rparr>
   \<and> (get_user (db a) uid \<noteq> None \<longrightarrow>
        session_entry ts now
          \<in> set (get_session_logs_for_user
                   (snd (add_session_log_to_user (db a) uid (session_entry ts now))) uid))
   \<and> kid_rest_periods (start_stop_timer ans now a) = kid_rest_periods a
   \<and> block_limit_notifications (start_stop_timer ans now a) = block_limit_notifications a"
    using eq frame added_session_is_stored by blast
qed

theorem stop_runs_daily_check_after_append_witness:
  "kid_timer_running long_session
   \<and> kid_timer_start_time long_session = Some (at 2024 3 10 10 0 0)
   \<and> current_kid_user long_session = Some (''kid1'', limit_120)
   \<and> get_user (db long_session) ''kid1'' = Some (''kid1'', limit_120)
   \<and> start_stop_timer no_no (at 2024 3 10 12 5 0) long_session =
       (check_daily_limit ''kid1'' ''Ann'' (at 2024 3 10 12 5 0)
          (emit [SessionStoppedNotification ''Ann''
                   (duration (session_entry (at 2024 3 10 10 0 0) (at 2024 3 10 12 5 0)))]
             (long_session\<lparr>kid_timer_running := False,
                db := snd (add_session_log_to_user (db long_session) ''kid1''
                             (session_entry (at 2024 3 10 10 0 0) (at 2024 3 10 12 5 0)))\<rparr>)))
         \<lparr>kid_session_log := kid_session_log long_session
                               @ [session_entry (at 2024 3 10 10 0 0) (at 2024 3 10 12 5 0)],
          kid_timer_start_time := None\<rparr>
   \<and> session_entry (at 2024 3 10 10 0 0) (at 2024 3 10 12 5 0)
        \<in> set (get_session_logs_for_user
                 (snd (add_session_log_to_user (db long_session) ''kid1''
                         (session_entry (at 2024 3 10 10 0 0) (at 2024 3 10 12 5 0)))) ''kid1'')
   \<and> kid_rest_periods (start_stop_timer no_no (at 2024 3 10 12 5 0) long_session)
        = kid_rest_periods long_session
   \<and> block_limit_notifications (start_stop_timer no_no (at 2024 3 10 12 5 0) long_session)
        = block_limit_notifications long_session"
proof -
  have h: "kid_timer_running long_session"
      "kid_timer_start_time long_session = Some (at 2024 3 10 10 0 0)"
      "current_kid_user long_session = Some (''kid1'', limit_120)"
      "get_user (db long_session) ''kid1'' = Some (''kid1'', limit_120)"
      "dict_get (username limit_120) ''Kid'' = ''Ann''"
    by (simp_all add: long_session_def selected_def init_app_def get_user_def limit_120_def
          new_user_def dict_get_def)
  show ?thesis
    using stop_runs_daily_check_after_append
            [of long_session "at 2024 3 10 10 0 0" "''kid1''" limit_120 no_no "at 2024 3 10 12 5 0"]
          h(1-4)
    unfolding h(5) by blast
qed

subsection \<open>The end of a rest period\<close>

lemma check_rest_period_end_after_expiry:
  "\<not> is_user_in_rest a uid now \<Longrightarrow> check_rest_period_end uid un now a = a"
  by (simp add: check_rest_period_end_def)

text \<open>
  C3 (the program departs from the claim). The claim: once the wall clock has passed
  the end of a rest period, a call of the rest-ended check deletes the rest state and
  raises the rest-ended event, once. \<^verbatim>\<open>_check_rest_period_end\<close> returns at once when
  the user is no longer resting, which is exactly when the period has ended: 61 minutes
  after the start of a rest of 60 minutes the call leaves the rest state in place and
  shows nothing.
\<close>

theorem rest_state_survives_its_end:
  "is_user_in_rest resting ''kid1'' (at 2024 3 10 13 1 0) = False
   \<and> kid_rest_periods (check_rest_period_end ''kid1'' ''Ann'' (at 2024 3 10 13 1 0) resting) ''kid1''
        = Some \<lparr>start_time = at 2024 3 10 12 0 0, duration_minutes = 60\<rparr>
   \<and> events (check_rest_period_end ''kid1'' ''Ann'' (at 2024 3 10 13 1 0) resting) = []"
  by code_simp

subsection \<open>The length of a rest period\<close>

lemma check_block_limit_rest_duration:
  "kid_rest_periods (check_block_limit uid un now a) uid = Some r \<Longrightarrow>
   kid_rest_periods a uid = None \<Longrightarrow> get_user (db a) uid = Some (uid, u) \<Longrightarrow>
   duration_minutes r = dict_get (rest_duration_minutes u) 60"
  by (auto simp add: check_block_limit_def get_user_def start_rest_period_def emit_def
        Let_def split: option.splits if_splits)

text \<open>
  C4 (the program departs from the claim). The claim: the rest period that the
  block-limit check starts lasts as long as the rest time stored with the user, and 60
  minutes only when none is stored. \<^verbatim>\<open>_gather_and_save_user\<close> stores the rest time
  under the key \<open>rest_minutes\<close>, \<^verbatim>\<open>_check_block_limit\<close> reads the key
  \<open>rest_duration_minutes\<close>, which nothing writes: a kid saved with a rest time of 30
  minutes gets a rest period of 60 minutes.
\<close>

theorem rest_period_ignores_stored_rest_minutes:
  "map_option (rest_minutes \<circ> snd) (get_user (db saved_kid) ''kid1'') = Some (Some 30)
   \<and> calculate_block_usage saved_kid ''kid1'' (at 2024 3 10 12 0 0) = 60
   \<and> kid_rest_periods (check_block_limit ''kid1'' ''Ann'' (at 2024 3 10 12 0 0) saved_kid) ''kid1''
        = Some \<lparr>start_time = at 2024 3 10 12 0 0, duration_minutes = 60\<rparr>
   \<and> events (check_block_limit ''kid1'' ''Ann'' (at 2024 3 10 12 0 0) saved_kid)
        = [BlockLimitTray ''Ann'' 1 60]"
  by code_simp

subsection \<open>The running session in the usage totals\<close>

lemma current_session_seconds_timer:
  "map_option fst (current_kid_user a) = Some uid \<Longrightarrow>
   current_session_seconds (a\<lparr>kid_timer_running := True, kid_timer_start_time := Some ts\<rparr>) uid now
     = int_total_seconds (now - ts)"
  by (simp add: current_session_seconds_def)

lemma current_session_seconds_stopped:
  "current_session_seconds (a\<lparr>kid_timer_running := False\<rparr>) uid now = 0"
  by (simp add: current_session_seconds_def split: option.splits)

text \<open>
  C5 (as stated, refuted). The claim: the running session adds its elapsed time to a
  total only if its own start lies in the window. The totals add it whenever the timer
  runs for the user. A session started at 23:50 on 2024-03-09 and still running at 00:10
  on 2024-03-10, with an empty log: its start is not of today and lies before the start
  of the block, and both totals are 1200 seconds.
\<close>

theorem live_session_counts_outside_window:
  "date_of (at 2024 3 9 23 50 0) \<noteq> date_of (at 2024 3 10 0 10 0)
   \<and> calculate_daily_usage
        ((selected (new_user ''Ann''))
           \<lparr>kid_timer_running := True, kid_timer_start_time := Some (at 2024 3 9 23 50 0)\<rparr>)
        ''kid1'' (at 2024 3 10 0 10 0) = 1200
   \<and> at 2024 3 9 23 50 0
        < get_last_rest_end_time (selected (new_user ''Ann'')) ''kid1'' (at 2024 3 10 0 10 0)
   \<and> calculate_block_usage
        ((selected (new_user ''Ann''))
           \<lparr>kid_timer_running := True, kid_timer_start_time := Some (at 2024 3 9 23 50 0)\<rparr>)
        ''kid1'' (at 2024 3 10 0 10 0) = 1200"
  by code_simp

text \<open>
  C5 (amended). For both windows the total adds the whole seconds elapsed since the
  start of the running session whenever the timer runs for that user, wherever that
  start lies: the total with the timer running is the total with the timer stopped plus
  the elapsed seconds. For the block window this holds while the user is not resting;
  while the user rests the block total is 0.
\<close>

theorem live_session_added_whatever_its_start:
  "(db a \<noteq> None \<and> map_option fst (current_kid_user a) = Some uid \<longrightarrow>
      calculate_daily_usage (a\<lparr>kid_timer_running := True, kid_timer_start_time := Some ts\<rparr>) uid now
        = calculate_daily_usage (a\<lparr>kid_timer_running := False\<rparr>) uid now
            + int_total_seconds (now - ts))
   \<and> (get_user (db a) uid \<noteq> None \<and> \<not> is_user_in_rest a uid now
        \<and> map_option fst (current_kid_user a) = Some uid \<longrightarrow>
      calculate_block_usage (a\<lparr>kid_timer_running := True, kid_timer_start_time := Some ts\<rparr>) uid now
        = calculate_block_usage (a\<lparr>kid_timer_running := False\<rparr>) uid now
            + int_total_seconds (now - ts))
   \<and> (is_user_in_rest a uid now \<longrightarrow>
      calculate_block_usage (a\<lparr>kid_timer_running := True, kid_timer_start_time := Some ts\<rparr>) uid now = 0)"
proof (intro conjI impI)
  assume h: "db a \<noteq> None \<and> map_option fst (current_kid_user a) = Some uid"
  then show "calculate_daily_usage (a\<lparr>kid_timer_running := True, kid_timer_start_time := Some ts\<rparr>) uid now
        = calculate_daily_usage (a\<lparr>kid_timer_running := False\<rparr>) uid now
            + int_total_seconds (now - ts)"
    by (auto simp add: calculate_daily_usage_def current_session_seconds_timer
          current_session_seconds_stopped)
next
  assume h: "get_user (db a) uid \<noteq> None \<and> \<not> is_user_in_rest a uid now
        \<and> map_option fst (current_kid_user a) = Some uid"
  then have "db a \<noteq> None"
    by (auto simp add: get_user_def split: option.splits)
  with h show "calculate_block_usage (a\<lparr>kid_timer_running := True, kid_timer_start_time := Some ts\<rparr>) uid now
        = calculate_block_usage (a\<lparr>kid_timer_running := False\<rparr>) uid now
            + int_total_seconds (now - ts)"
    by (auto simp add: calculate_block_usage_def current_session_seconds_timer
          current_session_seconds_stopped is_user_in_rest_def get_last_rest_end_time_def)
next
  assume "is_user_in_rest a uid now"
  then show "calculate_block_usage (a\<lparr>kid_timer_running := True, kid_timer_start_time := Some ts\<rparr>) uid now = 0"
    by (auto simp add: calculate_block_usage_def is_user_in_rest_def split: option.splits)
qed

theorem live_session_added_whatever_its_start_witness:
  "calculate_daily_usage
      ((selected (new_user ''Ann''))
         \<lparr>kid_timer_running := True, kid_timer_start_time := Some (at 2024 3 9 23 50 0)\<rparr>)
      ''kid1'' (at 2024 3 10 0 10 0)
     = calculate_daily_usage ((selected (new_user ''Ann''))\<lparr>kid_timer_running := False\<rparr>)
         ''kid1'' (at 2024 3 10 0 10 0)
       + int_total_seconds (at 2024 3 10 0 10 0 - at 2024 3 9 23 50 0)
   \<and> calculate_block_usage
      ((selected (new_user ''Ann''))
         \<lparr>kid_timer_running := True, kid_timer_start_time := Some (at 2024 3 9 23 50 0)\<rparr>)
      ''kid1'' (at 2024 3 10 0 10 0)
     = calculate_block_usage ((selected (new_user ''Ann''))\<lparr>kid_timer_running := False\<rparr>)
         ''kid1'' (at 2024 3 10 0 10 0)
       + int_total_seconds (at 2024 3 10 0 10 0 - at 2024 3 9 23 50 0)
   \<and> int_total_seconds (at 2024 3 10 0 10 0 - at 2024 3 9 23 50 0) = 1200
   \<and> is_user_in_rest resting ''kid1'' (at 2024 3 10 12 30 0)
   \<and> calculate_block_usage
        (resting\<lparr>kid_timer_running := True, kid_timer_start_time := Some (at 2024 3 10 12 10 0)\<rparr>)
        ''kid1'' (at 2024 3 10 12 30 0) = 0"
proof -
  let ?a = "selected (new_user ''Ann'')"
  have h: "db ?a \<noteq> None" "map_option fst (current_kid_user ?a) = Some ''kid1''"
      "get_user (db ?a) ''kid1'' \<noteq> None"
      "\<not> is_user_in_rest ?a ''kid1'' (at 2024 3 10 0 10 0)"
    by (simp_all add: selected_def init_app_def get_user_def is_user_in_rest_def)
  have e: "int_total_seconds (at 2024 3 10 0 10 0 - at 2024 3 9 23 50 0) = 1200"
    by code_simp
  have r: "is_user_in_rest resting ''kid1'' (at 2024 3 10 12 30 0)"
    by code_simp
  show ?thesis
    using live_session_added_whatever_its_start
            [of ?a "''kid1''" "at 2024 3 9 23 50 0" "at 2024 3 10 0 10 0"]
          live_session_added_whatever_its_start
            [of resting "''kid1''" "at 2024 3 10 12 10 0" "at 2024 3 10 12 30 0"]
          h e r
    by blast
qed

subsection \<open>The allowed play hours\<close>

text \<open>
  C6. For allowed hours that parse to \<open>allowed_start\<close> and \<open>allowed_end\<close> and every
  time of day, the gate lets a start through iff, when \<open>allowed_start \<le> allowed_end\<close>,
  the time lies between the two, and otherwise (a range over midnight) the time is at
  or after the start or at or before the end, both ends included; a start attempt that
  the lunch routine lets through starts the timer iff the gate does. With 22:00 and
  06:00: 23:30 is in range, 12:00 is not, 06:00 exactly is.
\<close>

theorem allowed_hours_gate_inclusive:
  "(strptime_HM (dict_get (allowed_start_time u) ''15:00'') = Some allowed_start
      \<and> strptime_HM (dict_get (allowed_end_time u) ''18:00'') = Some allowed_end \<longrightarrow>
    (enforce_allowed_play_hours u now = InRange) =
      (if allowed_start \<le> allowed_end
       then allowed_start \<le> time_of now \<and> time_of now \<le> allowed_end
       else time_of now \<ge> allowed_start \<or> time_of now \<le> allowed_end))
   \<and> (\<not> kid_timer_running a \<and> current_kid_user a = Some (uid, u)
        \<and> \<not> fst (is_lunch_routine_required ans now a) \<longrightarrow>
      kid_timer_running (start_stop_timer ans now a) = (enforce_allowed_play_hours u now = InRange))
   \<and> enforce_allowed_play_hours night_owl (at 2024 3 10 23 30 0) = InRange
   \<and> enforce_allowed_play_hours night_owl (at 2024 3 10 12 0 0) = NotInRange ''22:00'' ''06:00''
   \<and> enforce_allowed_play_hours night_owl (at 2024 3 10 6 0 0) = InRange"
proof -
  have gate: "strptime_HM (dict_get (allowed_start_time u) ''15:00'') = Some allowed_start
      \<and> strptime_HM (dict_get (allowed_end_time u) ''18:00'') = Some allowed_end \<longrightarrow>
    (enforce_allowed_play_hours u now = InRange) =
      (if allowed_start \<le> allowed_end
       then allowed_start \<le> time_of now \<and> time_of now \<le> allowed_end
       else time_of now \<ge> allowed_start \<or> time_of now \<le> allowed_end)"
    by (simp add: enforce_allowed_play_hours_def Let_def)
  have wired: "\<not> kid_timer_running a \<and> current_kid_user a = Some (uid, u)
        \<and> \<not> fst (is_lunch_routine_required ans now a) \<longrightarrow>
      kid_timer_running (start_stop_timer ans now a) = (enforce_allowed_play_hours u now = InRange)"
    using started_iff [of a uid u ans now] by simp
  have e1: "enforce_allowed_play_hours night_owl (at 2024 3 10 23 30 0) = InRange"
    by code_simp
  have e2: "enforce_allowed_play_hours night_owl (at 2024 3 10 12 0 0)
              = NotInRange ''22:00'' ''06:00''"
    by code_simp
  have e3: "enforce_allowed_play_hours night_owl (at 2024 3 10 6 0 0) = InRange"
    by code_simp
  show ?thesis using gate wired e1 e2 e3 by blast
qed

theorem allowed_hours_gate_inclusive_witness:
  "strptime_HM (dict_get (allowed_start_time night_owl) ''15:00'') = Some (mk_time 22 0 0 0)
   \<and> strptime_HM (dict_get (allowed_end_time night_owl) ''18:00'') = Some (mk_time 6 0 0 0)
   \<and> (enforce_allowed_play_hours night_owl (at 2024 3 10 6 0 1) = InRange)
        = (if mk_time 22 0 0 0 \<le> mk_time 6 0 0 0
           then mk_time 22 0 0 0 \<le> time_of (at 2024 3 10 6 0 1)
                  \<and> time_of (at 2024 3 10 6 0 1) \<le> mk_time 6 0 0 0
           else time_of (at 2024 3 10 6 0 1) \<ge> mk_time 22 0 0 0
                  \<or> time_of (at 2024 3 10 6 0 1) \<le> mk_time 6 0 0 0)
   \<and> time_of (at 2024 3 10 6 0 1) = mk_time 6 0 1 0
   \<and> \<not> kid_timer_running (selected night_owl)
   \<and> kid_timer_running (start_stop_timer no_no (at 2024 3 10 23 30 0) (selected night_owl))
        = (enforce_allowed_play_hours night_owl (at 2024 3 10 23 30 0) = InRange)"
proof -
  have p: "strptime_HM (dict_get (allowed_start_time night_owl) ''15:00'') = Some (mk_time 22 0 0 0)"
      "strptime_HM (dict_get (allowed_end_time night_owl) ''18:00'') = Some (mk_time 6 0 0 0)"
      "time_of (at 2024 3 10 6 0 1) = mk_time 6 0 1 0"
    by code_simp+
  have s: "\<not> kid_timer_running (selected night_owl)"
      "current_kid_user (selected night_owl) = Some (''kid1'', night_owl)"
    by (simp_all add: selected_def init_app_def)
  have "enforce_lunch_routine night_owl \<noteq> Some True"
    by (simp add: night_owl_def new_user_def)
  then have l: "\<not> fst (is_lunch_routine_required no_no (at 2024 3 10 23 30 0) (selected night_owl))"
    using lunch_routine_not_enforced [OF s(2)] by simp
  show ?thesis
    using allowed_hours_gate_inclusive
            [of night_owl "mk_time 22 0 0 0" "mk_time 6 0 0 0" "at 2024 3 10 6 0 1"]
          allowed_hours_gate_inclusive
            [where u = night_owl and now = "at 2024 3 10 23 30 0" and a = "selected night_owl"
               and uid = "''kid1''" and ans = no_no]
          p s l
    by blast
qed

subsection \<open>Time fields that do not parse\<close>

lemma unparsable_allowed_hours:
  "strptime_HM (dict_get (allowed_start_time u) ''15:00'') = None
     \<or> strptime_HM (dict_get (allowed_end_time u) ''18:00'') = None \<Longrightarrow>
   enforce_allowed_play_hours u now = NotSetCorrectly"
  by (auto simp add: enforce_allowed_play_hours_def Let_def split: option.splits)

lemma unparsable_lunch_hours:
  "strptime_HM (dict_get (lunch_start_time u) ''12:00'') = None
     \<or> strptime_HM (dict_get (lunch_end_time u) ''13:00'') = None \<Longrightarrow>
   current_kid_user a = Some (uid, u) \<Longrightarrow>
   is_lunch_routine_required ans now a = (False, a)"
  by (auto simp add: is_lunch_routine_required_def split: option.splits)

text \<open>
  C7. An allowed start or end time that does not parse blocks the start: the timer
  stays stopped, and when the lunch routine has let the attempt through the warning
  "Allowed play hours are not set correctly" is shown. A lunch start or end time that
  does not parse switches the lunch routine off: it asks nothing, changes nothing and
  does not block, so the start then depends on the allowed hours alone.
\<close>

theorem unparsable_times_closed_and_open:
  "((strptime_HM (dict_get (allowed_start_time u) ''15:00'') = None
       \<or> strptime_HM (dict_get (allowed_end_time u) ''18:00'') = None)
      \<and> \<not> kid_timer_running a \<and> current_kid_user a = Some (uid, u) \<longrightarrow>
    \<not> kid_timer_running (start_stop_timer ans now a)
    \<and> kid_timer_start_time (start_stop_timer ans now a) = kid_timer_start_time a
    \<and> (\<not> fst (is_lunch_routine_required ans now a) \<longrightarrow>
         events (start_stop_timer ans now a)
           = events (snd (is_lunch_routine_required ans now a)) @ [NotSetCorrectlyWarning]))
   \<and> ((strptime_HM (dict_get (lunch_start_time u) ''12:00'') = None
         \<or> strptime_HM (dict_get (lunch_end_time u) ''13:00'') = None)
        \<and> current_kid_user a = Some (uid, u) \<longrightarrow>
      is_lunch_routine_required ans now a = (False, a)
      \<and> (\<not> kid_timer_running a \<longrightarrow>
           kid_timer_running (start_stop_timer ans now a)
             = (enforce_allowed_play_hours u now = InRange)))"
proof (intro conjI impI)
  assume h: "(strptime_HM (dict_get (allowed_start_time u) ''15:00'') = None
       \<or> strptime_HM (dict_get (allowed_end_time u) ''18:00'') = None)
      \<and> \<not> kid_timer_running a \<and> current_kid_user a = Some (uid, u)"
  then have g: "enforce_allowed_play_hours u now = NotSetCorrectly"
    using unparsable_allowed_hours by blast
  show "\<not> kid_timer_running (start_stop_timer ans now a)"
    using h g by (simp add: started_iff)
  show "kid_timer_start_time (start_stop_timer ans now a) = kid_timer_start_time a"
    using h g by (simp add: start_attempt Let_def lunch_routine_frame emit_def)
  assume "\<not> fst (is_lunch_routine_required ans now a)"
  then show "events (start_stop_timer ans now a)
           = events (snd (is_lunch_routine_required ans now a)) @ [NotSetCorrectlyWarning]"
    using h g by (simp add: start_attempt Let_def emit_def)
next
  assume h: "(strptime_HM (dict_get (lunch_start_time u) ''12:00'') = None
         \<or> strptime_HM (dict_get (lunch_end_time u) ''13:00'') = None)
        \<and> current_kid_user a = Some (uid, u)"
  then show l: "is_lunch_routine_required ans now a = (False, a)"
    using unparsable_lunch_hours by blast
  assume "\<not> kid_timer_running a"
  then show "kid_timer_running (start_stop_timer ans now a)
             = (enforce_allowed_play_hours u now = InRange)"
    using h l by (simp add: started_iff)
qed

theorem unparsable_times_closed_and_open_witness:
  "strptime_HM (dict_get (allowed_start_time bad_allowed_hours) ''15:00'') = None
   \<and> \<not> kid_timer_running (start_stop_timer no_no (at 2024 3 10 16 0 0) (selected bad_allowed_hours))
   \<and> events (start_stop_timer no_no (at 2024 3 10 16 0 0) (selected bad_allowed_hours))
        = [NotSetCorrectlyWarning]
   \<and> strptime_HM (dict_get (lunch_start_time bad_lunch_hours) ''12:00'') = None
   \<and> is_lunch_routine_required yes_no (at 2024 3 10 16 0 0) (selected bad_lunch_hours)
        = (False, selected bad_lunch_hours)
   \<and> kid_timer_running (start_stop_timer yes_no (at 2024 3 10 16 0 0) (selected bad_lunch_hours))"
proof -
  have p: "strptime_HM (dict_get (allowed_start_time bad_allowed_hours) ''15:00'') = None"
      "strptime_HM (dict_get (lunch_start_time bad_lunch_hours) ''12:00'') = None"
      "enforce_allowed_play_hours bad_lunch_hours (at 2024 3 10 16 0 0) = InRange"
    by code_simp+
  have s: "\<not> kid_timer_running (selected bad_allowed_hours)"
      "current_kid_user (selected bad_allowed_hours) = Some (''kid1'', bad_allowed_hours)"
      "events (selected bad_allowed_hours) = []"
      "\<not> kid_timer_running (selected bad_lunch_hours)"
      "current_kid_user (selected bad_lunch_hours) = Some (''kid1'', bad_lunch_hours)"
    by (simp_all add: selected_def init_app_def)
  have "enforce_lunch_routine bad_allowed_hours \<noteq> Some True"
    by (simp add: bad_allowed_hours_def new_user_def)
  then have l: "is_lunch_routine_required no_no (at 2024 3 10 16 0 0) (selected bad_allowed_hours)
             = (False, selected bad_allowed_hours)"
    using lunch_routine_not_enforced [OF s(2)] by simp
  have t1: "\<not> kid_timer_running (start_stop_timer no_no (at 2024 3 10 16 0 0) (selected bad_allowed_hours))
      \<and> events (start_stop_timer no_no (at 2024 3 10 16 0 0) (selected bad_allowed_hours))
           = [NotSetCorrectlyWarning]"
    using unparsable_times_closed_and_open
            [of bad_allowed_hours "selected bad_allowed_hours" "''kid1''" no_no "at 2024 3 10 16 0 0"]
          p(1) s(1-3) l
    by simp
  have t2: "is_lunch_routine_required yes_no (at 2024 3 10 16 0 0) (selected bad_lunch_hours)
        = (False, selected bad_lunch_hours)
      \<and> kid_timer_running (start_stop_timer yes_no (at 2024 3 10 16 0 0) (selected bad_lunch_hours))"
    using unparsable_times_closed_and_open
            [of bad_lunch_hours "selected bad_lunch_hours" "''kid1''" yes_no "at 2024 3 10 16 0 0"]
          p(2,3) s(4,5)
    by simp
  show ?thesis using p(1,2) t1 t2 by blast
qed

subsection \<open>The lunch and teeth routine\<close>

lemma lunch_not_confirmed:
  assumes "current_kid_user a = Some (uid, u)" "enforce_lunch_routine u = Some True"
    "in_lunch_window u now" "lunch_confirmed_today a uid \<noteq> Some (date_of now)"
  shows "is_lunch_routine_required ans now a =
     (if \<not> had_lunch ans then (False, emit [AskLunch] a)
      else (\<not> brushed_teeth ans,
            emit (if brushed_teeth ans then [AskTeeth] else [AskTeeth, TeethReminder])
              (emit [AskLunch]
                 (a\<lparr>lunch_confirmed_today := (lunch_confirmed_today a)(uid \<mapsto> date_of now)\<rparr>))))"
  using assms
  by (auto simp add: is_lunch_routine_required_def in_lunch_window_def dict_get_def Let_def
        split: option.splits)

lemma lunch_confirmed:
  assumes "current_kid_user a = Some (uid, u)" "enforce_lunch_routine u = Some True"
    "in_lunch_window u now" "lunch_confirmed_today a uid = Some (date_of now)"
  shows "is_lunch_routine_required ans now a =
     (\<not> brushed_teeth ans,
      emit (if brushed_teeth ans then [AskTeeth] else [AskTeeth, TeethReminder]) a)"
  using assms
  by (auto simp add: is_lunch_routine_required_def in_lunch_window_def dict_get_def Let_def
        split: option.splits)

text \<open>
  C8. For a start attempt inside the lunch window, with the routine enforced and lunch
  not yet confirmed today: the answer "no" to the lunch question lets the attempt
  through with nothing recorded; the answer "yes" records the confirmation for today
  and asks the teeth question at once, where "no" blocks the start and "yes" lets it
  through (the timer then starts iff the allowed hours permit); and a later attempt of
  the same day inside the window is asked the teeth question only.
\<close>

theorem lunch_then_teeth:
  "current_kid_user a = Some (uid, u) \<and> enforce_lunch_routine u = Some True
     \<and> in_lunch_window u now \<and> lunch_confirmed_today a uid \<noteq> Some (date_of now) \<longrightarrow>
   (\<not> had_lunch ans \<longrightarrow>
      is_lunch_routine_required ans now a = (False, emit [AskLunch] a))
   \<and> (had_lunch ans \<longrightarrow>
        fst (is_lunch_routine_required ans now a) = (\<not> brushed_teeth ans)
        \<and> lunch_confirmed_today (snd (is_lunch_routine_required ans now a)) uid
            = Some (date_of now)
        \<and> events (snd (is_lunch_routine_required ans now a))
            = events a @ (if brushed_teeth ans then [AskLunch, AskTeeth]
                          else [AskLunch, AskTeeth, TeethReminder]))
   \<and> (\<not> kid_timer_running a \<longrightarrow>
        kid_timer_running (start_stop_timer ans now a)
          = ((brushed_teeth ans \<or> \<not> had_lunch ans)
               \<and> enforce_allowed_play_hours u now = InRange))
   \<and> (had_lunch ans \<and> date_of later = date_of now \<and> in_lunch_window u later \<longrightarrow>
        fst (is_lunch_routine_required ans' later (snd (is_lunch_routine_required ans now a)))
          = (\<not> brushed_teeth ans')
        \<and> events (snd (is_lunch_routine_required ans' later
                          (snd (is_lunch_routine_required ans now a))))
            = events (snd (is_lunch_routine_required ans now a))
                @ (if brushed_teeth ans' then [AskTeeth] else [AskTeeth, TeethReminder]))"
proof (intro impI)
  assume h: "current_kid_user a = Some (uid, u) \<and> enforce_lunch_routine u = Some True
     \<and> in_lunch_window u now \<and> lunch_confirmed_today a uid \<noteq> Some (date_of now)"
  let ?r = "is_lunch_routine_required ans now a"
  have first: "?r =
     (if \<not> had_lunch ans then (False, emit [AskLunch] a)
      else (\<not> brushed_teeth ans,
            emit (if brushed_teeth ans then [AskTeeth] else [AskTeeth, TeethReminder])
              (emit [AskLunch]
                 (a\<lparr>lunch_confirmed_today := (lunch_confirmed_today a)(uid \<mapsto> date_of now)\<rparr>))))"
    using h lunch_not_confirmed by blast
  have no: "\<not> had_lunch ans \<longrightarrow> ?r = (False, emit [AskLunch] a)"
    by (simp add: first)
  have yes: "had_lunch ans \<longrightarrow>
        fst ?r = (\<not> brushed_teeth ans)
        \<and> lunch_confirmed_today (snd ?r) uid = Some (date_of now)
        \<and> events (snd ?r)
            = events a @ (if brushed_teeth ans then [AskLunch, AskTeeth]
                          else [AskLunch, AskTeeth, TeethReminder])"
    by (simp add: first emit_def)
  have started: "\<not> kid_timer_running a \<longrightarrow>
        kid_timer_running (start_stop_timer ans now a)
          = ((brushed_teeth ans \<or> \<not> had_lunch ans)
               \<and> enforce_allowed_play_hours u now = InRange)"
    using h by (auto simp add: started_iff first)
  have later: "had_lunch ans \<and> date_of later = date_of now \<and> in_lunch_window u later \<longrightarrow>
        fst (is_lunch_routine_required ans' later (snd ?r)) = (\<not> brushed_teeth ans')
        \<and> events (snd (is_lunch_routine_required ans' later (snd ?r)))
            = events (snd ?r)
                @ (if brushed_teeth ans' then [AskTeeth] else [AskTeeth, TeethReminder])"
  proof
    assume l: "had_lunch ans \<and> date_of later = date_of now \<and> in_lunch_window u later"
    have c: "current_kid_user (snd ?r) = Some (uid, u)"
      using h by (simp add: lunch_routine_frame)
    have d: "lunch_confirmed_today (snd ?r) uid = Some (date_of later)"
      using yes l by simp
    have "is_lunch_routine_required ans' later (snd ?r) =
       (\<not> brushed_teeth ans',
        emit (if brushed_teeth ans' then [AskTeeth] else [AskTeeth, TeethReminder]) (snd ?r))"
      using lunch_confirmed [OF c _ _ d] h l by blast
    then show "fst (is_lunch_routine_required ans' later (snd ?r)) = (\<not> brushed_teeth ans')
        \<and> events (snd (is_lunch_routine_required ans' later (snd ?r)))
            = events (snd ?r)
                @ (if brushed_teeth ans' then [AskTeeth] else [AskTeeth, TeethReminder])"
      by (simp add: emit_def)
  qed
  show "(\<not> had_lunch ans \<longrightarrow> ?r = (False, emit [AskLunch] a))
   \<and> (had_lunch ans \<longrightarrow>
        fst ?r = (\<not> brushed_teeth ans)
        \<and> lunch_confirmed_today (snd ?r) uid = Some (date_of now)
        \<and> events (snd ?r)
            = events a @ (if brushed_teeth ans then [AskLunch, AskTeeth]
                          else [AskLunch, AskTeeth, TeethReminder]))
   \<and> (\<not> kid_timer_running a \<longrightarrow>
        kid_timer_running (start_stop_timer ans now a)
          = ((brushed_teeth ans \<or> \<not> had_lunch ans)
               \<and> enforce_allowed_play_hours u now = InRange))
   \<and> (had_lunch ans \<and> date_of later = date_of now \<and> in_lunch_window u later \<longrightarrow>
        fst (is_lunch_routine_required ans' later (snd ?r)) = (\<not> brushed_teeth ans')
        \<and> events (snd (is_lunch_routine_required ans' later (snd ?r)))
            = events (snd ?r)
                @ (if brushed_teeth ans' then [AskTeeth] else [AskTeeth, TeethReminder]))"
    using no yes started later by blast
qed

theorem lunch_then_teeth_witness:
  "in_lunch_window lunch_kid (at 2024 3 10 12 30 0)
   \<and> in_lunch_window lunch_kid (at 2024 3 10 12 45 0)
   \<and> is_lunch_routine_required no_no (at 2024 3 10 12 30 0) (selected lunch_kid)
        = (False, emit [AskLunch] (selected lunch_kid))
   \<and> fst (is_lunch_routine_required yes_no (at 2024 3 10 12 30 0) (selected lunch_kid))
   \<and> lunch_confirmed_today
        (snd (is_lunch_routine_required yes_no (at 2024 3 10 12 30 0) (selected lunch_kid)))
        ''kid1'' = Some (date_of (at 2024 3 10 12 30 0))
   \<and> events (snd (is_lunch_routine_required yes_no (at 2024 3 10 12 30 0) (selected lunch_kid)))
        = [AskLunch, AskTeeth, TeethReminder]
   \<and> \<not> kid_timer_running (start_stop_timer yes_no (at 2024 3 10 12 30 0) (selected lunch_kid))
   \<and> kid_timer_running (start_stop_timer yes_yes (at 2024 3 10 12 30 0) (selected lunch_kid))
   \<and> kid_timer_running (start_stop_timer no_no (at 2024 3 10 12 30 0) (selected lunch_kid))
   \<and> \<not> fst (is_lunch_routine_required yes_yes (at 2024 3 10 12 45 0)
               (snd (is_lunch_routine_required yes_no (at 2024 3 10 12 30 0) (selected lunch_kid))))
   \<and> events (snd (is_lunch_routine_required yes_yes (at 2024 3 10 12 45 0)
               (snd (is_lunch_routine_required yes_no (at 2024 3 10 12 30 0) (selected lunch_kid)))))
        = [AskLunch, AskTeeth, TeethReminder, AskTeeth]"
proof -
  let ?a = "selected lunch_kid"
  let ?now = "at 2024 3 10 12 30 0"
  let ?later = "at 2024 3 10 12 45 0"
  have w: "in_lunch_window lunch_kid ?now" "in_lunch_window lunch_kid ?later"
      "date_of ?later = date_of ?now" "enforce_allowed_play_hours lunch_kid ?now = InRange"
    by code_simp+
  have s: "current_kid_user ?a = Some (''kid1'', lunch_kid)"
      "lunch_confirmed_today ?a ''kid1'' \<noteq> Some (date_of ?now)"
      "\<not> kid_timer_running ?a" "events ?a = []"
    by (simp_all add: selected_def init_app_def)
  have e: "enforce_lunch_routine lunch_kid = Some True"
    by (simp add: lunch_kid_def)
  have ans: "had_lunch yes_no" "\<not> brushed_teeth yes_no" "had_lunch yes_yes"
      "brushed_teeth yes_yes" "\<not> had_lunch no_no"
    by (simp_all add: yes_no_def yes_yes_def no_no_def)
  have t1: "is_lunch_routine_required no_no ?now ?a = (False, emit [AskLunch] ?a)
      \<and> kid_timer_running (start_stop_timer no_no ?now ?a)"
    using lunch_then_teeth [of ?a "''kid1''" lunch_kid ?now no_no] s e w ans by simp
  have t2: "kid_timer_running (start_stop_timer yes_yes ?now ?a)"
    using lunch_then_teeth [of ?a "''kid1''" lunch_kid ?now yes_yes] s e w ans by simp
  have t3: "fst (is_lunch_routine_required yes_no ?now ?a)
      \<and> lunch_confirmed_today (snd (is_lunch_routine_required yes_no ?now ?a)) ''kid1''
           = Some (date_of ?now)
      \<and> events (snd (is_lunch_routine_required yes_no ?now ?a))
           = [AskLunch, AskTeeth, TeethReminder]
      \<and> \<not> kid_timer_running (start_stop_timer yes_no ?now ?a)
      \<and> \<not> fst (is_lunch_routine_required yes_yes ?later
                  (snd (is_lunch_routine_required yes_no ?now ?a)))
      \<and> events (snd (is_lunch_routine_required yes_yes ?later
                  (snd (is_lunch_routine_required yes_no ?now ?a))))
           = [AskLunch, AskTeeth, TeethReminder, AskTeeth]"
    using lunch_then_teeth [of ?a "''kid1''" lunch_kid ?now yes_no ?later yes_yes] s e w ans
    by simp
  show ?thesis using w(1,2) t1 t2 t3 by blast
qed

subsection \<open>Overlapping entries\<close>

lemma overlap_check_finds:
  "other \<in> set stored \<Longrightarrow> strptime_YmdHMS (start other) = Some other_start \<Longrightarrow>
   strptime_YmdHMS (stop other) = Some other_stop \<Longrightarrow>
   start_dt < other_stop \<Longrightarrow> stop_dt > other_start \<Longrightarrow>
   overlap_check start_dt stop_dt stored \<noteq> None"
  by (induction stored) (auto split: option.splits)

lemma overlap_check_edit_finds:
  "j < length stored \<Longrightarrow> idx + int j \<noteq> session_idx \<Longrightarrow>
   strptime_YmdHMS (start (stored ! j)) = Some other_start \<Longrightarrow>
   strptime_YmdHMS (stop (stored ! j)) = Some other_stop \<Longrightarrow>
   start_dt < other_stop \<Longrightarrow> stop_dt > other_start \<Longrightarrow>
   overlap_check_edit session_idx start_dt stop_dt idx stored \<noteq> None"
proof (induction stored arbitrary: idx j)
  case Nil
  then show ?case by simp
next
  case (Cons x xs)
  show ?case
  proof (cases j)
    case 0
    with Cons.prems show ?thesis by (auto split: option.splits)
  next
    case (Suc k)
    with Cons.prems have "overlap_check_edit session_idx start_dt stop_dt (idx + 1) xs \<noteq> None"
      by (intro Cons.IH [of k "idx + 1"]) auto
    then show ?thesis by (auto split: option.splits)
  qed
qed

lemma manual_entry_save_atomic:
  "fst (manual_entry_save uid date_s start_s stop_s d) \<noteq> Saved \<Longrightarrow>
   snd (manual_entry_save uid date_s start_s stop_s d) = d"
  by (auto simp add: manual_entry_save_def Let_def split: option.splits if_splits)

lemma edit_selected_log_atomic:
  "fst (edit_selected_log uid session_idx new_start new_stop new_duration d) \<noteq> Saved \<Longrightarrow>
   snd (edit_selected_log uid session_idx new_start new_stop new_duration d) = d"
  by (auto simp add: edit_selected_log_def Let_def split: option.splits if_splits)

lemma manual_overlap_rejected:
  assumes "strptime_YmdHM (date_s @ '' '' @ start_s) = Some start_dt"
    "strptime_YmdHM (date_s @ '' '' @ stop_s) = Some stop_raw"
    "stop_dt = (if stop_raw < start_dt then stop_raw + us_per_day else stop_raw)"
    "other \<in> set (get_session_logs_for_user d uid)"
    "strptime_YmdHMS (start other) = Some other_start"
    "strptime_YmdHMS (stop other) = Some other_stop"
    "start_dt < other_stop" "stop_dt > other_start"
  shows "fst (manual_entry_save uid date_s start_s stop_s d) \<noteq> Saved
    \<and> snd (manual_entry_save uid date_s start_s stop_s d) = d
    \<and> (start_dt \<le> stop_dt \<longrightarrow>
         (\<exists>x y. fst (manual_entry_save uid date_s start_s stop_s d) = TimeOverlap x y))"
proof -
  obtain found_one where
    f: "overlap_check start_dt stop_dt (get_session_logs_for_user d uid) = Some found_one"
    using overlap_check_finds [OF assms(4-8)] by blast
  have r: "manual_entry_save uid date_s start_s stop_s d =
      (if start_dt > stop_dt then (InvalidTimeRange, d)
       else (TimeOverlap (start found_one) (stop found_one), d))"
    using assms(1-3) f by (simp add: manual_entry_save_def Let_def)
  then show ?thesis by auto
qed

lemma edit_overlap_rejected:
  assumes "strptime_YmdHMS ns = Some start_dt" "strptime_YmdHMS nt = Some stop_dt"
    "j < length (get_session_logs_for_user d uid)" "int j \<noteq> session_idx"
    "strptime_YmdHMS (start (get_session_logs_for_user d uid ! j)) = Some other_start"
    "strptime_YmdHMS (stop (get_session_logs_for_user d uid ! j)) = Some other_stop"
    "start_dt < other_stop" "stop_dt > other_start"
  shows "fst (edit_selected_log uid session_idx (Some ns) (Some nt) (Some nd) d) \<noteq> Saved
    \<and> snd (edit_selected_log uid session_idx (Some ns) (Some nt) (Some nd) d) = d"
proof -
  have "overlap_check_edit session_idx start_dt stop_dt 0 (get_session_logs_for_user d uid) \<noteq> None"
    using overlap_check_edit_finds [OF assms(3) _ assms(5-8), of 0 session_idx] assms(4) by simp
  then obtain found_one where
    f: "overlap_check_edit session_idx start_dt stop_dt 0 (get_session_logs_for_user d uid)
          = Some found_one"
    by blast
  have "fst (edit_selected_log uid session_idx (Some ns) (Some nt) (Some nd) d) \<noteq> Saved"
    using assms(1,2) f
    by (auto simp add: edit_selected_log_def get_session_logs_for_user_def Let_def
          split: option.splits)
  then show ?thesis using edit_selected_log_atomic by blast
qed

text \<open>
  C9. A manually added interval, or an edited one, that overlaps a stored interval of the
  same user (for an edit: another one than the edited entry) in the sense
  \<open>new.start < other.stop\<close> and \<open>new.stop > other.start\<close> is not saved and the stored
  log stays as it was; the manual entry is refused with the overlap message. More
  generally every outcome other than a save leaves the stored log unchanged.
\<close>

theorem overlapping_write_rejected:
  "(strptime_YmdHM (date_s @ '' '' @ start_s) = Some start_dt
      \<and> strptime_YmdHM (date_s @ '' '' @ stop_s) = Some stop_raw
      \<and> stop_dt = (if stop_raw < start_dt then stop_raw + us_per_day else stop_raw)
      \<and> other \<in> set (get_session_logs_for_user d uid)
      \<and> strptime_YmdHMS (start other) = Some other_start
      \<and> strptime_YmdHMS (stop other) = Some other_stop
      \<and> start_dt < other_stop \<and> stop_dt > other_start \<longrightarrow>
    fst (manual_entry_save uid date_s start_s stop_s d) \<noteq> Saved
    \<and> snd (manual_entry_save uid date_s start_s stop_s d) = d
    \<and> (start_dt \<le> stop_dt \<longrightarrow>
         (\<exists>x y. fst (manual_entry_save uid date_s start_s stop_s d) = TimeOverlap x y)))
   \<and> (strptime_YmdHMS ns = Some new_start \<and> strptime_YmdHMS nt = Some new_stop
        \<and> j < length (get_session_logs_for_user d uid) \<and> int j \<noteq> session_idx
        \<and> strptime_YmdHMS (start (get_session_logs_for_user d uid ! j)) = Some other_start
        \<and> strptime_YmdHMS (stop (get_session_logs_for_user d uid ! j)) = Some other_stop
        \<and> new_start < other_stop \<and> new_stop > other_start \<longrightarrow>
      fst (edit_selected_log uid session_idx (Some ns) (Some nt) (Some nd) d) \<noteq> Saved
      \<and> snd (edit_selected_log uid session_idx (Some ns) (Some nt) (Some nd) d) = d)
   \<and> (fst (manual_entry_save uid date_s start_s stop_s d) \<noteq> Saved \<longrightarrow>
        snd (manual_entry_save uid date_s start_s stop_s d) = d)
   \<and> (fst (edit_selected_log uid session_idx es et ed d) \<noteq> Saved \<longrightarrow>
        snd (edit_selected_log uid session_idx es et ed d) = d)"
  using manual_overlap_rejected [of date_s start_s start_dt stop_s stop_raw stop_dt other d uid
          other_start other_stop]
        edit_overlap_rejected [of ns new_start nt new_stop j d uid session_idx other_start
          other_stop nd]
        manual_entry_save_atomic [of uid date_s start_s stop_s d]
        edit_selected_log_atomic [of uid session_idx es et ed d]
  by blast

theorem overlapping_write_rejected_witness:
  "fst (manual_entry_save ''kid1'' ''2024-03-10'' ''10:30'' ''11:30'' (Some two_sessions)) \<noteq> Saved
   \<and> snd (manual_entry_save ''kid1'' ''2024-03-10'' ''10:30'' ''11:30'' (Some two_sessions))
        = Some two_sessions
   \<and> (\<exists>x y. fst (manual_entry_save ''kid1'' ''2024-03-10'' ''10:30'' ''11:30'' (Some two_sessions))
               = TimeOverlap x y)
   \<and> fst (edit_selected_log ''kid1'' 1 (Some ''2024-03-10 10:30:00'')
            (Some ''2024-03-10 12:30:00'') (Some ''02:00:00'') (Some two_sessions)) \<noteq> Saved
   \<and> snd (edit_selected_log ''kid1'' 1 (Some ''2024-03-10 10:30:00'')
            (Some ''2024-03-10 12:30:00'') (Some ''02:00:00'') (Some two_sessions))
        = Some two_sessions
   \<and> fst (manual_entry_save ''kid1'' ''2024-03-10'' ''14:00'' ''15:00'' (Some two_sessions)) = Saved"
proof -
  let ?first = "\<lparr>start = ''2024-03-10 10:00:00'', stop = ''2024-03-10 11:00:00'',
                  duration = ''01:00:00''\<rparr>"
  let ?second = "\<lparr>start = ''2024-03-10 12:00:00'', stop = ''2024-03-10 13:00:00'',
                   duration = ''01:00:00''\<rparr>"
  have stored: "get_session_logs_for_user (Some two_sessions) ''kid1'' = [?first, ?second]"
    by (simp add: get_session_logs_for_user_def two_sessions_def dict_get_def)
  have p: "strptime_YmdHM (''2024-03-10'' @ '' '' @ ''10:30'') = Some (at 2024 3 10 10 30 0)"
      "strptime_YmdHM (''2024-03-10'' @ '' '' @ ''11:30'') = Some (at 2024 3 10 11 30 0)"
      "strptime_YmdHMS ''2024-03-10 10:00:00'' = Some (at 2024 3 10 10 0 0)"
      "strptime_YmdHMS ''2024-03-10 11:00:00'' = Some (at 2024 3 10 11 0 0)"
      "strptime_YmdHMS ''2024-03-10 10:30:00'' = Some (at 2024 3 10 10 30 0)"
      "strptime_YmdHMS ''2024-03-10 12:30:00'' = Some (at 2024 3 10 12 30 0)"
    by code_simp+
  have c: "at 2024 3 10 10 30 0 < at 2024 3 10 11 0 0"
      "at 2024 3 10 11 30 0 > at 2024 3 10 10 0 0"
      "at 2024 3 10 12 30 0 > at 2024 3 10 10 0 0"
      "\<not> at 2024 3 10 11 30 0 < at 2024 3 10 10 30 0"
      "at 2024 3 10 10 30 0 \<le> at 2024 3 10 11 30 0"
    by code_simp+
  have ok: "fst (manual_entry_save ''kid1'' ''2024-03-10'' ''14:00'' ''15:00'' (Some two_sessions))
              = Saved"
    by code_simp
  have m: "fst (manual_entry_save ''kid1'' ''2024-03-10'' ''10:30'' ''11:30'' (Some two_sessions)) \<noteq> Saved
      \<and> snd (manual_entry_save ''kid1'' ''2024-03-10'' ''10:30'' ''11:30'' (Some two_sessions))
           = Some two_sessions
      \<and> (\<exists>x y. fst (manual_entry_save ''kid1'' ''2024-03-10'' ''10:30'' ''11:30'' (Some two_sessions))
                  = TimeOverlap x y)"
    using overlapping_write_rejected
            [where date_s = "''2024-03-10''" and start_s = "''10:30''" and stop_s = "''11:30''"
               and start_dt = "at 2024 3 10 10 30 0" and stop_raw = "at 2024 3 10 11 30 0"
               and stop_dt = "at 2024 3 10 11 30 0" and other = ?first
               and d = "Some two_sessions" and uid = "''kid1''"
               and other_start = "at 2024 3 10 10 0 0" and other_stop = "at 2024 3 10 11 0 0"]
          stored p c
    by simp
  have e: "fst (edit_selected_log ''kid1'' 1 (Some ''2024-03-10 10:30:00'')
            (Some ''2024-03-10 12:30:00'') (Some ''02:00:00'') (Some two_sessions)) \<noteq> Saved
      \<and> snd (edit_selected_log ''kid1'' 1 (Some ''2024-03-10 10:30:00'')
            (Some ''2024-03-10 12:30:00'') (Some ''02:00:00'') (Some two_sessions))
           = Some two_sessions"
    using overlapping_write_rejected
            [where ns = "''2024-03-10 10:30:00''" and nt = "''2024-03-10 12:30:00''"
               and new_start = "at 2024 3 10 10 30 0" and new_stop = "at 2024 3 10 12 30 0"
               and j = 0 and session_idx = 1 and nd = "''02:00:00''"
               and d = "Some two_sessions" and uid = "''kid1''"
               and other_start = "at 2024 3 10 10 0 0" and other_stop = "at 2024 3 10 11 0 0"]
          stored p c
    by simp
  show ?thesis using m e ok by blast
qed

subsection \<open>The remaining daily time\<close>

text \<open>
  C10. For a user without \<open>max_daily_minutes\<close> the remaining daily time is 0, the value
  it also has when the budget is used up, so both users are shown "No time left"; and
  the remaining time is never negative.
\<close>

theorem daily_remaining_zero_when_unlimited:
  "(get_user (db a) uid = Some (uid, u) \<and> max_daily_minutes u = None \<longrightarrow>
      calculate_daily_remaining a uid now = 0
      \<and> format_time_remaining (calculate_daily_remaining a uid now) = ''No time left'')
   \<and> (get_user (db a) uid = Some (uid, u) \<and> max_daily_minutes u = Some daily_limit
        \<and> calculate_daily_usage a uid now \<ge> daily_limit * 60 \<longrightarrow>
      calculate_daily_remaining a uid now = 0
      \<and> format_time_remaining (calculate_daily_remaining a uid now) = ''No time left'')
   \<and> 0 \<le> calculate_daily_remaining a uid now"
  by (auto simp add: calculate_daily_remaining_def get_user_def format_time_remaining_def
        Let_def split: option.splits prod.splits)

theorem daily_remaining_zero_when_unlimited_witness:
  "calculate_daily_remaining (one_minute_played None) ''kid1'' (at 2024 3 10 12 0 0) = 0
   \<and> calculate_daily_remaining (one_minute_played (Some 1)) ''kid1'' (at 2024 3 10 12 0 0) = 0
   \<and> calculate_daily_usage (one_minute_played (Some 1)) ''kid1'' (at 2024 3 10 12 0 0) = 60
   \<and> format_time_remaining
        (calculate_daily_remaining (one_minute_played None) ''kid1'' (at 2024 3 10 12 0 0))
      = format_time_remaining
          (calculate_daily_remaining (one_minute_played (Some 1)) ''kid1'' (at 2024 3 10 12 0 0))"
proof -
  let ?now = "at 2024 3 10 12 0 0"
  obtain u where u: "get_user (db (one_minute_played None)) ''kid1'' = Some (''kid1'', u)"
      and un: "max_daily_minutes u = None"
    by (simp add: one_minute_played_def init_app_def get_user_def)
  obtain v where v: "get_user (db (one_minute_played (Some 1))) ''kid1'' = Some (''kid1'', v)"
      and vn: "max_daily_minutes v = Some 1"
    by (simp add: one_minute_played_def init_app_def get_user_def)
  have usage: "calculate_daily_usage (one_minute_played (Some 1)) ''kid1'' ?now = 60"
    by code_simp
  show ?thesis
    using daily_remaining_zero_when_unlimited [of "one_minute_played None" "''kid1''" u ?now]
          daily_remaining_zero_when_unlimited [of "one_minute_played (Some 1)" "''kid1''" v ?now 1]
          u un v vn usage
    by simp
qed

end
